theory Spec2Isabelle
  imports Main "HOL-Library.Word" "HOL-Library.List_Lexorder"
begin

section \<open>JavaScript strings\<close>

text \<open>
  A JavaScript string is a sequence of UTF-16 code units. Literals of the source are
  written \<open>str ''...''\<close>.
\<close>

type_synonym code_unit = "16 word"
type_synonym jsstring = "code_unit list"
type_synonym bytes = "8 word list"

definition str :: "string \<Rightarrow> jsstring" where
  "str s = map of_char s"

text \<open>\<open>!x\<close> for a value that is either \<open>undefined\<close> or a string: the empty
  string is falsy as well.\<close>

definition falsy :: "jsstring option \<Rightarrow> bool" where
  "falsy x = (case x of None \<Rightarrow> True | Some s \<Rightarrow> s = [])"

text \<open>\<open>RegExp.prototype.exec\<close> converts its argument to a string first.\<close>

definition ToString :: "jsstring option \<Rightarrow> jsstring" where
  "ToString x = (case x of None \<Rightarrow> str ''undefined'' | Some s \<Rightarrow> s)"

section \<open>The regular expressions of \<open>customerRegister\<close>\<close>

text \<open>
  All four expressions carry the flags \<open>gm\<close>. Each is created afresh in the
  handler, so \<open>exec\<close> starts its search at index 0; with \<open>m\<close>, \<open>^\<close>
  matches at index 0 and after every line terminator, and \<open>$\<close> matches at the end
  of the input and before every line terminator. Only the truthiness of the result of
  \<open>exec\<close> is used, so \<open>exec\<close> is modelled as a predicate.
\<close>

definition LineTerminator :: "code_unit \<Rightarrow> bool" where
  "LineTerminator c = (c = 0x000A \<or> c = 0x000D \<or> c = 0x2028 \<or> c = 0x2029)"

definition digit :: "code_unit \<Rightarrow> bool" where
  "digit c = (of_char CHR ''0'' \<le> c \<and> c \<le> of_char CHR ''9'')"

definition upper :: "code_unit \<Rightarrow> bool" where
  "upper c = (of_char CHR ''A'' \<le> c \<and> c \<le> of_char CHR ''Z'')"

definition lower :: "code_unit \<Rightarrow> bool" where
  "lower c = (of_char CHR ''a'' \<le> c \<and> c \<le> of_char CHR ''z'')"

definition symbol :: "code_unit \<Rightarrow> bool" where
  "symbol c = (c \<in> of_char ` set ''!@#$%^&*'')"

text \<open>The class \<open>\w\<close>: letters, digits and the underscore.\<close>

definition word_char :: "code_unit \<Rightarrow> bool" where
  "word_char c = (upper c \<or> lower c \<or> digit c \<or> c = of_char CHR ''_'')"

text \<open>The class \<open>[\w!@#$%^&*]\<close>.\<close>

definition pwd_char :: "code_unit \<Rightarrow> bool" where
  "pwd_char c = (word_char c \<or> symbol c)"

text \<open>The class \<open>[/-]\<close>.\<close>

definition separator :: "code_unit \<Rightarrow> bool" where
  "separator c = (c = of_char CHR ''/'' \<or> c = of_char CHR ''-'')"

text \<open>\<open>$\<close> at the current position; \<open>r\<close> is the rest of the input.\<close>

definition eol :: "jsstring \<Rightarrow> bool" where
  "eol r = (case r of [] \<Rightarrow> True | c # _ \<Rightarrow> LineTerminator c)"

text \<open>A sequence of one-character classes followed by \<open>$\<close>.\<close>

fun seq_eol :: "(code_unit \<Rightarrow> bool) list \<Rightarrow> jsstring \<Rightarrow> bool" where
  "seq_eol [] r = eol r"
| "seq_eol (p # ps) [] = False"
| "seq_eol (p # ps) (c # cs) = (p c \<and> seq_eol ps cs)"

text \<open>The lookahead body \<open>.*[cls]\<close>: the dot matches everything but a line
  terminator.\<close>

fun dot_star_class :: "(code_unit \<Rightarrow> bool) \<Rightarrow> jsstring \<Rightarrow> bool" where
  "dot_star_class cls [] = False"
| "dot_star_class cls (c # cs) = (cls c \<or> (\<not> LineTerminator c \<and> dot_star_class cls cs))"

text \<open>\<open>[\w!@#$%^&*]{k,}$\<close>: \<open>k\<close> is the number of characters still required.\<close>

fun class_run_eol :: "nat \<Rightarrow> jsstring \<Rightarrow> bool" where
  "class_run_eol k [] = (k = 0)"
| "class_run_eol k (c # cs) =
     ((k = 0 \<and> LineTerminator c) \<or> (pwd_char c \<and> class_run_eol (k - 1) cs))"

text \<open>The search of \<open>exec\<close> for a pattern \<open>^body\<close>: every start index is
  tried from left to right; \<open>at_start\<close> says whether \<open>^\<close> matches at the current
  index.\<close>

fun exec_from :: "(jsstring \<Rightarrow> bool) \<Rightarrow> bool \<Rightarrow> jsstring \<Rightarrow> bool" where
  "exec_from body at_start [] = (at_start \<and> body [])"
| "exec_from body at_start (c # cs) =
     ((at_start \<and> body (c # cs)) \<or> exec_from body (LineTerminator c) cs)"

text \<open>\<open>/^(?=.*[\d])(?=.*[A-Z])(?=.*[a-z])(?=.*[!@#$%^&*])[\w!@#$%^&*]{8,}$/gm\<close>\<close>

definition pwd_body :: "jsstring \<Rightarrow> bool" where
  "pwd_body r =
     (dot_star_class digit r \<and> dot_star_class upper r \<and> dot_star_class lower r \<and>
      dot_star_class symbol r \<and> class_run_eol 8 r)"

definition regexPwd_exec :: "jsstring \<Rightarrow> bool" where
  "regexPwd_exec s = exec_from pwd_body True s"

text \<open>\<open>/^\d{4}[/-]\d{2}[/-]\d{2}$/gm\<close>\<close>

definition date_pattern :: "(code_unit \<Rightarrow> bool) list" where
  "date_pattern =
     [digit, digit, digit, digit, separator, digit, digit, separator, digit, digit]"

definition regexDoB_exec :: "jsstring \<Rightarrow> bool" where
  "regexDoB_exec s = exec_from (seq_eol date_pattern) True s"

definition regexRegDate_exec :: "jsstring \<Rightarrow> bool" where
  "regexRegDate_exec s = exec_from (seq_eol date_pattern) True s"

text \<open>\<open>/^[0-9]{9}$|^[0-9]{12}$/gm\<close>\<close>

definition digits9 :: "(code_unit \<Rightarrow> bool) list" where
  "digits9 = [digit, digit, digit, digit, digit, digit, digit, digit, digit]"

definition digits12 :: "(code_unit \<Rightarrow> bool) list" where
  "digits12 =
     [digit, digit, digit, digit, digit, digit, digit, digit, digit, digit, digit, digit]"

definition regexIdentNum_exec :: "jsstring \<Rightarrow> bool" where
  "regexIdentNum_exec s = exec_from (\<lambda>r. seq_eol digits9 r \<or> seq_eol digits12 r) True s"

section \<open>Data model\<close>

text \<open>Modelled from the spec: the enumeration \<open>STATUS\<close> (\<open>utils/statusEnum\<close>) is
  the closed set of account statuses.\<close>

datatype status = STATUS_active | STATUS_inactive | STATUS_blocked | STATUS_deleted

text \<open>Modelled from the spec: the enumeration \<open>ROLE\<close> (\<open>utils/roleEnum\<close>) is a
  closed set of role descriptions that holds at least staff and admin.\<close>

datatype role_description = ROLE_staff | ROLE_admin | ROLE_other nat

record role =
  role_id :: nat
  roleDescription :: role_description

record customer =
  customer_id :: nat
  customer_username :: jsstring
  customer_email :: jsstring
  customer_password :: jsstring
  customer_name :: "jsstring option"
  customer_dateOfBirth :: "jsstring option"
  customer_phoneNumber :: "jsstring option"
  customer_address :: "jsstring option"
  customer_verifyCode :: jsstring
  customer_status :: status

record identity =
  customerId :: nat
  identityNumber :: jsstring
  registrationDate :: jsstring
  frontImage :: bytes
  backImage :: bytes

record staff =
  staff_id :: nat
  staff_username :: jsstring
  staff_password :: jsstring
  staff_name :: jsstring
  roleId :: "nat option"
  staff_status :: status
  staff_updatedAt :: nat

record store =
  customers :: "customer list"
  identities :: "identity list"
  staffs :: "staff list"
  roles :: "role list"

text \<open>An \<open>AppError\<close> carries its message and its HTTP status code. Anything else a
  handler throws reaches \<open>next\<close> through \<open>asyncHandler\<close> as it is.\<close>

datatype jwt_error = JsonWebTokenError | TokenExpiredError | NotBeforeError

datatype exn = JwtError jwt_error | TypeError | StoreError

datatype failure = AppError string nat | Thrown exn

text \<open>A staff row as the staff-management queries return it: without \<open>password\<close>,
  \<open>roleId\<close> and \<open>passwordUpdatedAt\<close>, with the joined \<open>Role\<close>.\<close>

record staff_view =
  view_id :: nat
  view_username :: jsstring
  view_name :: jsstring
  view_status :: status
  view_updatedAt :: nat
  view_Role :: role

datatype body = TokenBody jsstring | StaffBody staff_view | StaffListBody nat "staff_view list"

datatype response = Response nat body

section \<open>Registration\<close>

text \<open>The fields of \<open>req.body\<close> that \<open>customerRegister\<close> reads. A text field is a
  string or \<open>undefined\<close>; the two image fields hold the buffers that
  \<open>compressIdentityImages\<close> stored there (a buffer is truthy even when empty).\<close>

record register_body =
  body_email :: "jsstring option"
  body_username :: "jsstring option"
  body_password :: "jsstring option"
  body_name :: "jsstring option"
  body_dateOfBirth :: "jsstring option"
  body_phoneNumber :: "jsstring option"
  body_address :: "jsstring option"
  body_identityNumber :: "jsstring option"
  body_registrationDate :: "jsstring option"
  body_frontImage :: "bytes option"
  body_backImage :: "bytes option"

text \<open>What the handler calls outside this file's code: string methods of the runtime,
  \<open>passwordValidator\<close>, \<open>uuid\<close>, \<open>jsonwebtoken\<close> and the decisions of the
  database (the id it assigns, and whether it refuses a row).\<close>

record env =
  trim :: "jsstring \<Rightarrow> jsstring"
  toLowerCase :: "jsstring \<Rightarrow> jsstring"
  createHashedPassword :: "jsstring option \<Rightarrow> jsstring"
  uuidv4 :: jsstring
  jwt_sign :: "jsstring \<Rightarrow> nat \<Rightarrow> jsstring"
  new_customer_id :: "store \<Rightarrow> nat"
  customer_refused :: "store \<Rightarrow> customer \<Rightarrow> bool"
  identity_refused :: "store \<Rightarrow> identity \<Rightarrow> bool"

text \<open>\<open>signToken(type, id)\<close> signs the payload \<open>{type, id}\<close>.\<close>

definition signToken :: "(jsstring \<Rightarrow> nat \<Rightarrow> jsstring) \<Rightarrow> jsstring \<Rightarrow> nat \<Rightarrow> jsstring" where
  "signToken sign type ident = sign type ident"

text \<open>Modelled from the spec: \<open>Customer.create\<close> and \<open>Identity.create\<close> (the
  Sequelize models are not among the sources). Each is one store operation of its own: it
  either adds the row or fails and leaves the store as it was. A new account starts
  \<open>active\<close>.\<close>

definition Customer_create :: "env \<Rightarrow> store \<Rightarrow> customer \<Rightarrow> exn + (customer \<times> store)" where
  "Customer_create d st row =
     (let c = row\<lparr>customer_id := new_customer_id d st, customer_status := STATUS_active\<rparr>
      in if customer_refused d st c then Inl StoreError
         else Inr (c, st\<lparr>customers := customers st @ [c]\<rparr>))"

definition Identity_create :: "env \<Rightarrow> store \<Rightarrow> identity \<Rightarrow> exn + store" where
  "Identity_create d st i =
     (if identity_refused d st i then Inl StoreError
      else Inr (st\<lparr>identities := identities st @ [i]\<rparr>))"

definition WeakPassword :: failure where
  "WeakPassword = AppError ''Password must be minimum eight characters, at least one uppercase letter, one lowercase letter, one number and one special character.'' 400"

definition BadDateOfBirth :: failure where
  "BadDateOfBirth = AppError ''Date of birth is invalid'' 400"

definition IncompleteIdentity :: failure where
  "IncompleteIdentity = AppError ''Please provide a full identity.'' 400"

definition BadIdentityNumber :: failure where
  "BadIdentityNumber = AppError ''Identity number must be 9 or 12 characters in length.'' 400"

definition BadRegistrationDate :: failure where
  "BadRegistrationDate = AppError ''Date of registration is invalid'' 400"

text \<open>The operands of \<open>!identityNumber || !registrationDate || !frontImage ||
  !backImage\<close>: \<open>None\<close> when the condition holds, the four values otherwise.\<close>

definition full_identity :: "register_body \<Rightarrow> (jsstring \<times> jsstring \<times> bytes \<times> bytes) option" where
  "full_identity b =
     (case body_identityNumber b of None \<Rightarrow> None | Some n \<Rightarrow>
      (case body_registrationDate b of None \<Rightarrow> None | Some r \<Rightarrow>
      (case body_frontImage b of None \<Rightarrow> None | Some f \<Rightarrow>
      (case body_backImage b of None \<Rightarrow> None | Some k \<Rightarrow>
         if n = [] \<or> r = [] then None else Some (n, r, f, k)))))"

text \<open>The rows that \<open>customerRegister\<close> hands to \<open>Customer.create\<close> and to
  \<open>Identity.create\<close>. The handler gives the customer neither an id nor a status: the
  two fields are set by \<open>Customer_create\<close>.\<close>

definition new_customer :: "env \<Rightarrow> register_body \<Rightarrow> jsstring \<Rightarrow> jsstring \<Rightarrow> customer" where
  "new_customer d b username email =
     \<lparr>customer_id = 0,
      customer_username = toLowerCase d (trim d username),
      customer_email = toLowerCase d (trim d email),
      customer_password = createHashedPassword d (body_password b),
      customer_name = body_name b,
      customer_dateOfBirth = body_dateOfBirth b,
      customer_phoneNumber = body_phoneNumber b,
      customer_address = body_address b,
      customer_verifyCode = uuidv4 d,
      customer_status = STATUS_active\<rparr>"

definition new_identity :: "customer \<Rightarrow> jsstring \<times> jsstring \<times> bytes \<times> bytes \<Rightarrow> identity" where
  "new_identity customer full =
     (case full of (identNum, regDate, front, back) \<Rightarrow>
        \<lparr>customerId = customer_id customer,
         identityNumber = identNum,
         registrationDate = regDate,
         frontImage = front,
         backImage = back\<rparr>)"

text \<open>\<open>exports.customerRegister\<close>. The result is what the handler passes to
  \<open>next\<close> (or throws), or its response, together with the store it leaves.\<close>

definition customerRegister :: "env \<Rightarrow> store \<Rightarrow> register_body \<Rightarrow> (failure + response) \<times> store" where
  "customerRegister d st b =
     (let matchedPwd = regexPwd_exec (ToString (body_password b));
          matchedDoB = regexDoB_exec (ToString (body_dateOfBirth b));
          matchedIdentNum = regexIdentNum_exec (ToString (body_identityNumber b));
          matchedRegDate = regexRegDate_exec (ToString (body_registrationDate b))
      in if \<not> matchedPwd then (Inl WeakPassword, st)
         else if \<not> matchedDoB then (Inl BadDateOfBirth, st)
         else
           (case full_identity b of
              None \<Rightarrow> (Inl IncompleteIdentity, st)
            | Some full \<Rightarrow>
           if \<not> matchedIdentNum then (Inl BadIdentityNumber, st)
           else if \<not> matchedRegDate then (Inl BadRegistrationDate, st)
           else
           (case body_username b of
              None \<Rightarrow> (Inl (Thrown TypeError), st)
            | Some username \<Rightarrow>
           (case body_email b of
              None \<Rightarrow> (Inl (Thrown TypeError), st)
            | Some email \<Rightarrow>
           (case Customer_create d st (new_customer d b username email) of
              Inl e \<Rightarrow> (Inl (Thrown e), st)
            | Inr (customer, st1) \<Rightarrow>
           (case Identity_create d st1 (new_identity customer full) of
              Inl e \<Rightarrow> (Inl (Thrown e), st1)
            | Inr st2 \<Rightarrow>
                (Inr (Response 201
                        (TokenBody (signToken (jwt_sign d) (str ''customer'') (customer_id customer)))),
                 st2)))))))"




section \<open>The access gate\<close>

text \<open>\<open>String.prototype.startsWith\<close>, \<open>String.prototype.split\<close> with a
  one-character separator, and indexing an array (out of range it is \<open>undefined\<close>).\<close>

definition startsWith :: "jsstring \<Rightarrow> jsstring \<Rightarrow> bool" where
  "startsWith s p = (take (length p) s = p)"

fun split :: "code_unit \<Rightarrow> jsstring \<Rightarrow> jsstring list" where
  "split sep [] = [[]]"
| "split sep (c # cs) =
     (if c = sep then [] # split sep cs
      else (case split sep cs of [] \<Rightarrow> [[c]] | p # ps \<Rightarrow> (c # p) # ps))"

definition index :: "'a list \<Rightarrow> nat \<Rightarrow> 'a option" where
  "index xs i = (if i < length xs then Some (xs ! i) else None)"

text \<open>The payload \<open>{type, id}\<close> of a verified token.\<close>

record decoded =
  decoded_type :: jsstring
  decoded_id :: nat

text \<open>\<open>req.user\<close>: a customer row, or a staff row with its \<open>Role\<close> (the include
  of \<open>authorize\<close> has no condition, so the role may be missing).\<close>

datatype user = CustomerUser customer | StaffUser staff "role option"

fun user_status :: "user \<Rightarrow> status" where
  "user_status (CustomerUser c) = customer_status c"
| "user_status (StaffUser s r) = staff_status s"

fun user_Role :: "user \<Rightarrow> role option" where
  "user_Role (CustomerUser c) = None"
| "user_Role (StaffUser s r) = r"

definition staff_Role :: "store \<Rightarrow> staff \<Rightarrow> role option" where
  "staff_Role st s =
     (case roleId s of None \<Rightarrow> None | Some rid \<Rightarrow> find (\<lambda>r. role_id r = rid) (roles st))"

definition NotLoggedIn :: failure where
  "NotLoggedIn = AppError ''You are not logged in! Please log in to get access.'' 401"

definition NoLongerExists :: failure where
  "NoLongerExists = AppError ''The user belonging to this token does no longer exists.'' 401"

definition AccountInactive :: failure where
  "AccountInactive = AppError ''Your account is inactive!'' 403"

definition AccountBlocked :: failure where
  "AccountBlocked = AppError ''Your account is blocked!'' 403"

definition Forbidden :: failure where
  "Forbidden = AppError ''You do not have permission to perform this action.'' 403"

text \<open>The lookup of \<open>authorize\<close>: the switch on \<open>decoded.type\<close>.\<close>

definition currentUser :: "store \<Rightarrow> decoded \<Rightarrow> user option" where
  "currentUser st decoded =
     (if decoded_type decoded = str ''customer''
        then map_option CustomerUser
               (find (\<lambda>c. customer_id c = decoded_id decoded) (customers st))
      else if decoded_type decoded = str ''staff''
        then map_option (\<lambda>s. StaffUser s (staff_Role st s))
               (find (\<lambda>s. staff_id s = decoded_id decoded) (staffs st))
      else None)"

text \<open>The token of a header: \<open>req.headers.authorization.split(' ')[1]\<close>.\<close>

definition bearer_token :: "jsstring option \<Rightarrow> jsstring option" where
  "bearer_token authorization = index (split (of_char CHR '' '') (ToString authorization)) 1"

text \<open>\<open>exports.authorize\<close>. \<open>verify\<close> is \<open>jwt.verify\<close> with the secret of the
  process: it returns the payload or throws.\<close>

definition authorize ::
    "(jsstring option \<Rightarrow> jwt_error + decoded) \<Rightarrow> store \<Rightarrow> jsstring option \<Rightarrow> failure + user" where
  "authorize verify st authorization =
     (if \<not> falsy authorization \<and> startsWith (ToString authorization) (str ''Bearer '')
      then
        (case verify (bearer_token authorization) of
           Inl e \<Rightarrow> Inl (Thrown (JwtError e))
         | Inr decoded \<Rightarrow>
             (case currentUser st decoded of
                None \<Rightarrow> Inl NoLongerExists
              | Some u \<Rightarrow>
                  if user_status u = STATUS_deleted then Inl NoLongerExists
                  else (case user_status u of
                          STATUS_inactive \<Rightarrow> Inl AccountInactive
                        | STATUS_blocked \<Rightarrow> Inl AccountBlocked
                        | _ \<Rightarrow> Inr u)))
      else Inl NotLoggedIn)"

text \<open>\<open>exports.restrictTo(...roles)\<close>.\<close>

definition restrictTo :: "role_description list \<Rightarrow> user \<Rightarrow> failure + user" where
  "restrictTo allowed u =
     (case user_Role u of
        None \<Rightarrow> Inl Forbidden
      | Some r \<Rightarrow> if roleDescription r \<notin> set allowed then Inl Forbidden else Inr u)"

text \<open>A router that installs \<open>authorize\<close> and then \<open>restrictTo(...roles)\<close>, as
  \<open>staff.routes.js\<close> does with \<open>ROLE.staff, ROLE.admin\<close>: the second middleware runs
  only when the first called \<open>next()\<close> without an error.\<close>

definition gate ::
    "(jsstring option \<Rightarrow> jwt_error + decoded) \<Rightarrow> store \<Rightarrow> role_description list \<Rightarrow>
     jsstring option \<Rightarrow> failure + user" where
  "gate verify st allowed authorization =
     (case authorize verify st authorization of
        Inl e \<Rightarrow> Inl e
      | Inr u \<Rightarrow> restrictTo allowed u)"

definition staff_routes_gate ::
    "(jsstring option \<Rightarrow> jwt_error + decoded) \<Rightarrow> store \<Rightarrow> jsstring option \<Rightarrow> failure + user" where
  "staff_routes_gate verify st authorization = gate verify st [ROLE_staff, ROLE_admin] authorization"

text \<open>Modelled from the spec: the error handler at the request boundary is not among the
  sources. An \<open>AppError\<close> is answered with the status code it carries, a token
  verification error with 401, any other error with 500.\<close>

fun statusCode :: "failure \<Rightarrow> nat" where
  "statusCode (AppError msg code) = code"
| "statusCode (Thrown (JwtError e)) = 401"
| "statusCode (Thrown e) = 500"

section \<open>Login\<close>

definition MissingCredentials :: failure where
  "MissingCredentials = AppError ''Please provide username/email and password!'' 400"

definition IncorrectLogin :: failure where
  "IncorrectLogin = AppError ''Incorrect username/email or password'' 401"

text \<open>The two \<open>findOne\<close> queries of the login handlers.\<close>

definition Customer_findOne_login :: "store \<Rightarrow> jsstring \<Rightarrow> customer option" where
  "Customer_findOne_login st username =
     find (\<lambda>c. (customer_username c = username \<or> customer_email c = username) \<and>
                customer_status c \<noteq> STATUS_deleted) (customers st)"

definition Staff_findOne_login :: "store \<Rightarrow> jsstring \<Rightarrow> staff option" where
  "Staff_findOne_login st username =
     find (\<lambda>s. staff_username s = username \<and> staff_status s \<noteq> STATUS_deleted) (staffs st)"

text \<open>\<open>exports.customerLogin\<close>. \<open>verifyHashed\<close> is
  \<open>passwordValidator.verifyHashedPassword\<close>, \<open>sign\<close> is \<open>jwt.sign\<close> with the
  secret and the lifetime of the process.\<close>

definition customerLogin ::
    "(jsstring \<Rightarrow> jsstring \<Rightarrow> bool) \<Rightarrow> (jsstring \<Rightarrow> nat \<Rightarrow> jsstring) \<Rightarrow> store \<Rightarrow>
     jsstring option \<Rightarrow> jsstring option \<Rightarrow> failure + response" where
  "customerLogin verifyHashed sign st username password =
     (if falsy username \<or> falsy password then Inl MissingCredentials
      else
        (case Customer_findOne_login st (ToString username) of
           None \<Rightarrow> Inl IncorrectLogin
         | Some customer \<Rightarrow>
             if \<not> verifyHashed (ToString password) (customer_password customer)
             then Inl IncorrectLogin
             else Inr (Response 200
                         (TokenBody (signToken sign (str ''customer'') (customer_id customer))))))"

text \<open>\<open>exports.staffLogin\<close>.\<close>

definition staffLogin ::
    "(jsstring \<Rightarrow> jsstring \<Rightarrow> bool) \<Rightarrow> (jsstring \<Rightarrow> nat \<Rightarrow> jsstring) \<Rightarrow> store \<Rightarrow>
     jsstring option \<Rightarrow> jsstring option \<Rightarrow> failure + response" where
  "staffLogin verifyHashed sign st username password =
     (if falsy username \<or> falsy password then Inl MissingCredentials
      else
        (case Staff_findOne_login st (ToString username) of
           None \<Rightarrow> Inl IncorrectLogin
         | Some staff \<Rightarrow>
             if \<not> verifyHashed (ToString password) (staff_password staff)
             then Inl IncorrectLogin
             else Inr (Response 200
                         (TokenBody (signToken sign (str ''staff'') (staff_id staff))))))"

section \<open>Staff management\<close>

definition NotFound :: failure where
  "NotFound = AppError ''Can't find that staff!'' 404"

definition InvalidStatus :: failure where
  "InvalidStatus = AppError ''Status is not valid!'' 400"

text \<open>The include \<open>excludeAdmin\<close>: a join with \<open>Role\<close> under the condition
  \<open>roleDescription <> ROLE.admin\<close>. An include with a condition is an inner join, so a
  staff row is returned only with a role that meets it.\<close>

definition excludeAdmin :: "store \<Rightarrow> staff \<Rightarrow> staff_view option" where
  "excludeAdmin st s =
     (case staff_Role st s of
        None \<Rightarrow> None
      | Some r \<Rightarrow>
          if roleDescription r \<noteq> ROLE_admin
          then Some \<lparr>view_id = staff_id s, view_username = staff_username s,
                      view_name = staff_name s, view_status = staff_status s,
                      view_updatedAt = staff_updatedAt s, view_Role = r\<rparr>
          else None)"

text \<open>The rows of \<open>Staff\<close> that meet \<open>cond\<close>, joined through \<open>excludeAdmin\<close>;
  \<open>findOne\<close> returns the first of them.\<close>

definition select_staffs :: "store \<Rightarrow> (staff \<Rightarrow> bool) \<Rightarrow> staff_view list" where
  "select_staffs st cond = List.map_filter (excludeAdmin st) (filter cond (staffs st))"

definition findOne_staff :: "store \<Rightarrow> (staff \<Rightarrow> bool) \<Rightarrow> staff_view option" where
  "findOne_staff st cond = (case select_staffs st cond of [] \<Rightarrow> None | v # _ \<Rightarrow> Some v)"

text \<open>\<open>findStaff\<close> and \<open>exports.getStaff\<close>.\<close>

definition findStaff :: "store \<Rightarrow> nat \<Rightarrow> staff_view option" where
  "findStaff st ident =
     findOne_staff st (\<lambda>s. staff_id s = ident \<and> staff_status s \<noteq> STATUS_deleted)"

definition getStaff :: "store \<Rightarrow> nat \<Rightarrow> failure + response" where
  "getStaff st ident =
     (case findStaff st ident of
        None \<Rightarrow> Inl NotFound
      | Some staff \<Rightarrow> Inr (Response 200 (StaffBody staff)))"

text \<open>\<open>req.query\<close> of \<open>getAllStaffs\<close>; \<open>page\<close> and \<open>limit\<close> are numeric.\<close>

record staff_query =
  query_sortBy :: "jsstring option"
  query_sortType :: "jsstring option"
  query_page :: "int option"
  query_limit :: "int option"
  query_username :: "jsstring option"
  query_name :: "jsstring option"

text \<open>\<open>order: [[sortBy, sortType]]\<close>.\<close>

definition order_rows :: "jsstring \<Rightarrow> jsstring \<Rightarrow> staff_view list \<Rightarrow> staff_view list" where
  "order_rows sortBy sortType rows =
     (let ascending =
            (if sortBy = str ''username'' then sort_key view_username rows
             else if sortBy = str ''name'' then sort_key view_name rows
             else sort_key view_updatedAt rows)
      in if sortType = str ''desc'' then rev ascending else ascending)"

text \<open>\<open>exports.getAllStaffs\<close>. \<open>like pattern value\<close> is the \<open>LIKE\<close> of the
  database.\<close>

definition getAllStaffs ::
    "(jsstring \<Rightarrow> jsstring \<Rightarrow> bool) \<Rightarrow> store \<Rightarrow> staff_query \<Rightarrow> failure + response" where
  "getAllStaffs like st q =
     (let page = (case query_page q of None \<Rightarrow> 1 | Some n \<Rightarrow> if n \<le> 0 then 1 else n);
          limit = (case query_limit q of None \<Rightarrow> 10 | Some n \<Rightarrow> if n \<le> 0 then 10 else n);
          sortType =
            (if falsy (query_sortType q) \<or>
                ToString (query_sortType q) \<notin> set [str ''asc'', str ''desc'']
             then str ''asc'' else ToString (query_sortType q));
          sortBy =
            (if falsy (query_sortBy q) \<or>
                ToString (query_sortBy q) \<notin> set [str ''username'', str ''name'']
             then str ''updatedAt'' else ToString (query_sortBy q));
          filterArr =
            (if \<not> falsy (query_username q)
             then [\<lambda>s. like (str ''%'' @ ToString (query_username q) @ str ''%'') (staff_username s)]
             else []) @
            (if \<not> falsy (query_name q)
             then [\<lambda>s. like (str ''%'' @ ToString (query_name q) @ str ''%'') (staff_name s)]
             else []);
          found =
            select_staffs st
              (\<lambda>s. staff_status s \<noteq> STATUS_deleted \<and> list_all (\<lambda>f. f s) filterArr)
      in Inr (Response 200
                (StaffListBody (length found)
                   (take (nat limit)
                      (drop (nat ((page - 1) * limit)) (order_rows sortBy sortType found))))))"

text \<open>Modelled from the spec: the table \<open>STATUS\<close> (\<open>utils/statusEnum\<close>, not among the
  sources) has the four statuses as its own properties, each under its name. The table is
  an ordinary object, so a lookup \<open>STATUS[key]\<close> also finds what \<open>Object.prototype\<close>
  provides: a function, or for \<open>__proto__\<close> the prototype object.\<close>

datatype property = Undefined | Member status | Inherited

definition Object_prototype_keys :: "string list" where
  "Object_prototype_keys =
     [''constructor'', ''__defineGetter__'', ''__defineSetter__'', ''hasOwnProperty'',
      ''__lookupGetter__'', ''__lookupSetter__'', ''isPrototypeOf'', ''propertyIsEnumerable'',
      ''toString'', ''valueOf'', ''__proto__'', ''toLocaleString'']"

definition STATUS_get :: "jsstring \<Rightarrow> property" where
  "STATUS_get key =
     (if key = str ''active'' then Member STATUS_active
      else if key = str ''inactive'' then Member STATUS_inactive
      else if key = str ''blocked'' then Member STATUS_blocked
      else if key = str ''deleted'' then Member STATUS_deleted
      else if key \<in> set (map str Object_prototype_keys) then Inherited
      else Undefined)"

text \<open>\<open>staff.save()\<close> after \<open>staff.status = newStatus\<close>: when the status has
  changed, the row with the primary key of the instance gets the new status and
  \<open>updatedAt\<close> becomes the time of the call; when it has not, nothing is written.\<close>

definition save_status :: "nat \<Rightarrow> store \<Rightarrow> nat \<Rightarrow> status \<Rightarrow> store" where
  "save_status now st ident newStatus =
     st\<lparr>staffs :=
          map (\<lambda>s. if staff_id s = ident \<and> staff_status s \<noteq> newStatus
                    then s\<lparr>staff_status := newStatus, staff_updatedAt := now\<rparr> else s)
              (staffs st)\<rparr>"

text \<open>\<open>exports.updateStaffStatus\<close>; \<open>now\<close> is the time of the call. Every value but
  \<open>undefined\<close> that the lookup can return is truthy. The status column holds one of the
  four statuses; when the handler assigns an inherited member instead, \<open>save\<close> cannot
  write it and throws.\<close>

definition updateStaffStatus ::
    "nat \<Rightarrow> store \<Rightarrow> nat \<Rightarrow> jsstring option \<Rightarrow> (failure + response) \<times> store" where
  "updateStaffStatus now st idStaff status =
     (let newStatus = STATUS_get (ToString status) in
      if newStatus = Undefined then (Inl InvalidStatus, st)
      else
        (case findOne_staff st (\<lambda>s. staff_id s = idStaff) of
           None \<Rightarrow> (Inl NotFound, st)
         | Some staff \<Rightarrow>
             (case newStatus of
                Member v \<Rightarrow>
                  (Inr (Response 200
                          (StaffBody
                             (if view_status staff = v then staff
                              else staff\<lparr>view_status := v, view_updatedAt := now\<rparr>))),
                   save_status now st (view_id staff) v)
              | _ \<Rightarrow> (Inl (Thrown StoreError), st))))"

section \<open>The specification's words\<close>

text \<open>A value without line terminators.\<close>

definition single_line :: "jsstring \<Rightarrow> bool" where
  "single_line s = list_all (\<lambda>c. \<not> LineTerminator c) s"

text \<open>The five conditions on a password: length at least 8, a digit, an uppercase
  letter, a lowercase letter, a symbol of the punctuation set.\<close>

definition strong_password :: "jsstring \<Rightarrow> bool" where
  "strong_password p =
     (8 \<le> length p \<and> list_ex digit p \<and> list_ex upper p \<and> list_ex lower p \<and>
      list_ex symbol p)"

text \<open>A string that consists of one character of each class, in order.\<close>

definition matches :: "(code_unit \<Rightarrow> bool) list \<Rightarrow> jsstring \<Rightarrow> bool" where
  "matches ps s = list_all2 (\<lambda>p c. p c) ps s"

definition dash :: "code_unit \<Rightarrow> bool" where
  "dash c = (c = of_char CHR ''-'')"

definition slash :: "code_unit \<Rightarrow> bool" where
  "slash c = (c = of_char CHR ''/'')"

text \<open>The formats \<open>YYYY-MM-DD\<close> and \<open>YYYY/MM/DD\<close>.\<close>

definition format_dashes :: "jsstring \<Rightarrow> bool" where
  "format_dashes s =
     matches [digit, digit, digit, digit, dash, digit, digit, dash, digit, digit] s"

definition format_slashes :: "jsstring \<Rightarrow> bool" where
  "format_slashes s =
     matches [digit, digit, digit, digit, slash, digit, digit, slash, digit, digit] s"


text \<open>An ordered list of checks, each with the error it reports: the first check that
  fails determines the error.\<close>

definition first_failure :: "(bool \<times> failure) list \<Rightarrow> failure option" where
  "first_failure checks = map_option snd (find (\<lambda>(passed, e). \<not> passed) checks)"


section \<open>The checks of the handler\<close>

text \<open>The five conditions of \<open>customerRegister\<close> as the handler evaluates them, in the
  order of its \<open>if\<close> statements: the results of its own four expressions and its
  presence test.\<close>

definition registration_checks :: "register_body \<Rightarrow> (bool \<times> failure) list" where
  "registration_checks b =
     [(regexPwd_exec (ToString (body_password b)), WeakPassword),
      (regexDoB_exec (ToString (body_dateOfBirth b)), BadDateOfBirth),
      (\<not> falsy (body_identityNumber b) \<and> \<not> falsy (body_registrationDate b) \<and>
         body_frontImage b \<noteq> None \<and> body_backImage b \<noteq> None, IncompleteIdentity),
      (regexIdentNum_exec (ToString (body_identityNumber b)), BadIdentityNumber),
      (regexRegDate_exec (ToString (body_registrationDate b)), BadRegistrationDate)]"


text \<open>The text fields that the steps read have no line terminators.\<close>

definition single_line_fields :: "register_body \<Rightarrow> bool" where
  "single_line_fields b =
     (single_line (ToString (body_password b)) \<and> single_line (ToString (body_dateOfBirth b)) \<and>
      single_line (ToString (body_identityNumber b)) \<and>
      single_line (ToString (body_registrationDate b)))"

section \<open>Sample data\<close>

definition sample_env :: env where
  "sample_env =
     \<lparr>trim = (\<lambda>s. s), toLowerCase = (\<lambda>s. s),
      createHashedPassword = (\<lambda>p. str ''hash:'' @ ToString p),
      uuidv4 = str ''0000'',
      jwt_sign = (\<lambda>type ident. type @ str ''.'' @ replicate ident (of_char CHR ''i'')),
      new_customer_id = (\<lambda>st. Suc (length (customers st))),
      customer_refused = (\<lambda>st c. False),
      identity_refused = (\<lambda>st i. False)\<rparr>"

definition empty_store :: store where
  "empty_store = \<lparr>customers = [], identities = [], staffs = [], roles = []\<rparr>"

definition sample_body :: register_body where
  "sample_body =
     \<lparr>body_email = Some (str ''alice@example.org''),
      body_username = Some (str ''alice''),
      body_password = Some (str ''Abcdef1!''),
      body_name = Some (str ''Alice''),
      body_dateOfBirth = Some (str ''2000-01-02''),
      body_phoneNumber = None,
      body_address = None,
      body_identityNumber = Some (str ''123456789''),
      body_registrationDate = Some (str ''2015/03/04''),
      body_frontImage = Some [1],
      body_backImage = Some [2]\<rparr>"

definition sample_customer :: "nat \<Rightarrow> string \<Rightarrow> status \<Rightarrow> customer" where
  "sample_customer ident uname stat =
     \<lparr>customer_id = ident, customer_username = str uname,
      customer_email = str uname @ str ''@example.org'',
      customer_password = str ''hash:Abcdef1!'',
      customer_name = None, customer_dateOfBirth = None, customer_phoneNumber = None,
      customer_address = None, customer_verifyCode = str ''0000'', customer_status = stat\<rparr>"

definition sample_staff :: "nat \<Rightarrow> string \<Rightarrow> nat \<Rightarrow> status \<Rightarrow> staff" where
  "sample_staff ident uname rid stat =
     \<lparr>staff_id = ident, staff_username = str uname, staff_password = str ''hash:Secret1!'',
      staff_name = str uname, roleId = Some rid, staff_status = stat, staff_updatedAt = ident\<rparr>"

text \<open>Four customers and four staff members: the third staff member is a blocked admin,
  the second an active admin.\<close>

definition sample_store :: store where
  "sample_store =
     \<lparr>customers =
        [sample_customer 1 ''alice'' STATUS_active, sample_customer 2 ''carl'' STATUS_inactive,
         sample_customer 3 ''dora'' STATUS_blocked, sample_customer 4 ''eve'' STATUS_deleted],
      identities = [],
      staffs =
        [sample_staff 1 ''bob'' 1 STATUS_active, sample_staff 2 ''root'' 2 STATUS_active,
         sample_staff 3 ''blake'' 2 STATUS_blocked, sample_staff 4 ''dan'' 1 STATUS_deleted],
      roles =
        [\<lparr>role_id = 1, roleDescription = ROLE_staff\<rparr>,
         \<lparr>role_id = 2, roleDescription = ROLE_admin\<rparr>]\<rparr>"



definition sample_verifyHashed :: "jsstring \<Rightarrow> jsstring \<Rightarrow> bool" where
  "sample_verifyHashed password hash = (hash = str ''hash:'' @ password)"

text \<open>A stand-in for \<open>jwt.verify\<close> that reads the tokens of \<open>sample_env\<close>: the type,
  a dot, and as many letters \<open>i\<close> as the id counts. The token \<open>expired\<close> is refused as
  expired, everything else as invalid.\<close>

definition sample_verify :: "jsstring option \<Rightarrow> jwt_error + decoded" where
  "sample_verify token =
     (case token of
        None \<Rightarrow> Inl JsonWebTokenError
      | Some t \<Rightarrow>
          (let type = takeWhile (\<lambda>c. c \<noteq> of_char CHR ''.'') t;
               rest = dropWhile (\<lambda>c. c \<noteq> of_char CHR ''.'') t
           in if t = str ''expired'' then Inl TokenExpiredError
              else if rest \<noteq> [] \<and> list_all (\<lambda>c. c = of_char CHR ''i'') (tl rest)
                then Inr \<lparr>decoded_type = type, decoded_id = length (tl rest)\<rparr>
              else Inl JsonWebTokenError))"

section \<open>Properties\<close>

subsection \<open>The regular expressions on single-line values\<close>

lemma exec_from_False_single_line:
  "single_line s \<Longrightarrow> \<not> exec_from body False s"
  by (induction s) (simp_all add: single_line_def)

lemma exec_from_single_line:
  "single_line s \<Longrightarrow> exec_from body True s = body s"
  using exec_from_False_single_line [of "tl s" body]
  by (cases s) (auto simp add: single_line_def)

lemma dot_star_class_single_line:
  "single_line r \<Longrightarrow> dot_star_class cls r = list_ex cls r"
  by (induction r) (auto simp add: single_line_def)

lemma class_run_eol_single_line:
  "single_line r \<Longrightarrow> class_run_eol k r = (k \<le> length r \<and> list_all pwd_char r)"
proof (induction r arbitrary: k)
  case Nil
  then show ?case by simp
next
  case (Cons c cs)
  then show ?case by (cases k) (auto simp add: single_line_def)
qed

lemma seq_eol_single_line:
  "single_line r \<Longrightarrow> seq_eol ps r = list_all2 (\<lambda>p c. p c) ps r"
  by (induction ps r rule: seq_eol.induct) (auto simp add: single_line_def eol_def split: list.splits)

lemma exec_from_suffix:
  "exec_from body b s \<Longrightarrow> \<exists>p r. s = p @ r \<and> body r"
proof (induction s arbitrary: b)
  case Nil
  then show ?case by simp
next
  case (Cons c cs)
  show ?case
  proof (cases "b \<and> body (c # cs)")
    case True
    then have "c # cs = [] @ (c # cs) \<and> body (c # cs)" by simp
    then show ?thesis by blast
  next
    case False
    with Cons.prems have "exec_from body (LineTerminator c) cs" by auto
    from Cons.IH [OF this] obtain p r where "cs = p @ r" "body r" by blast
    then have "c # cs = (c # p) @ r \<and> body r" by simp
    then show ?thesis by blast
  qed
qed

lemma dot_star_class_ex: "dot_star_class cls r \<Longrightarrow> list_ex cls r"
  by (induction r) auto

lemma class_run_eol_length: "class_run_eol k r \<Longrightarrow> k \<le> length r"
proof (induction r arbitrary: k)
  case Nil
  then show ?case by simp
next
  case (Cons c cs)
  then show ?case by (cases k) auto
qed

lemma pwd_body_strong: "pwd_body r \<Longrightarrow> strong_password r"
  by (simp add: pwd_body_def strong_password_def dot_star_class_ex class_run_eol_length)

lemma regexPwd_exec_strong: "regexPwd_exec s \<Longrightarrow> strong_password s"
proof -
  assume "regexPwd_exec s"
  then obtain p r where s: "s = p @ r" and r: "pwd_body r"
    unfolding regexPwd_exec_def using exec_from_suffix by blast
  from r have "strong_password r" by (rule pwd_body_strong)
  with s show ?thesis by (auto simp add: strong_password_def)
qed

lemma regexPwd_exec_single_line:
  "single_line s \<Longrightarrow> regexPwd_exec s = (strong_password s \<and> list_all pwd_char s)"
  by (auto simp add: regexPwd_exec_def exec_from_single_line pwd_body_def strong_password_def
      dot_star_class_single_line class_run_eol_single_line)


lemma regex_date_single_line:
  "single_line s \<Longrightarrow> exec_from (seq_eol date_pattern) True s = matches date_pattern s"
  by (simp add: exec_from_single_line seq_eol_single_line matches_def)

subsection \<open>Registration\<close>

lemmas char_classes =
  digit_def upper_def lower_def symbol_def word_char_def pwd_char_def separator_def
  dash_def slash_def LineTerminator_def

lemmas validation_failures =
  WeakPassword_def BadDateOfBirth_def IncompleteIdentity_def BadIdentityNumber_def
  BadRegistrationDate_def

lemma full_identity_None:
  "(full_identity b = None) =
     (falsy (body_identityNumber b) \<or> falsy (body_registrationDate b) \<or>
      body_frontImage b = None \<or> body_backImage b = None)"
  by (auto simp add: full_identity_def falsy_def split: option.splits)

lemma customerRegister_WeakPassword:
  "(fst (customerRegister d st b) = Inl WeakPassword) = (\<not> regexPwd_exec (ToString (body_password b)))"
  by (auto simp add: customerRegister_def Let_def validation_failures
      split: option.splits sum.splits prod.splits)

lemma customerRegister_BadDateOfBirth:
  "(fst (customerRegister d st b) = Inl BadDateOfBirth) =
     (regexPwd_exec (ToString (body_password b)) \<and> \<not> regexDoB_exec (ToString (body_dateOfBirth b)))"
  by (auto simp add: customerRegister_def Let_def validation_failures
      split: option.splits sum.splits prod.splits)

lemma customerRegister_BadRegistrationDate:
  "(fst (customerRegister d st b) = Inl BadRegistrationDate) =
     (regexPwd_exec (ToString (body_password b)) \<and> regexDoB_exec (ToString (body_dateOfBirth b)) \<and>
      full_identity b \<noteq> None \<and> regexIdentNum_exec (ToString (body_identityNumber b)) \<and>
      \<not> regexRegDate_exec (ToString (body_registrationDate b)))"
  by (auto simp add: customerRegister_def Let_def validation_failures
      split: option.splits sum.splits prod.splits)

text \<open>
  C5, as the code has it. Every password that passes the first step has length at least 8
  and holds a digit, an uppercase letter, a lowercase letter and a symbol of
  \<open>!@#$%^&*\<close>, so every password that violates one of the five conditions is rejected
  with \<open>WeakPassword\<close> (status 400). For a password without line terminators the step
  passes exactly when the five conditions hold and, in addition, every character belongs to
  the class \<open>[\w!@#$%^&*]\<close> of the expression.
\<close>

theorem password_rule:
  "(fst (customerRegister d st b) \<noteq> Inl WeakPassword \<longrightarrow>
      strong_password (ToString (body_password b))) \<and>
   (single_line (ToString (body_password b)) \<longrightarrow>
      (fst (customerRegister d st b) = Inl WeakPassword) =
      (\<not> (strong_password (ToString (body_password b)) \<and>
           list_all pwd_char (ToString (body_password b))))) \<and>
   statusCode WeakPassword = 400"
proof -
  have "statusCode WeakPassword = 400"
    by (simp add: WeakPassword_def)
  then show ?thesis
    by (simp add: customerRegister_WeakPassword regexPwd_exec_strong regexPwd_exec_single_line)
qed

lemma sample_password: "regexPwd_exec (str ''Abcdef1!'')"
  by (simp add: regexPwd_exec_def pwd_body_def str_def char_classes)

lemma sample_dob: "regexDoB_exec (str ''2000-01-02'')"
  by (simp add: regexDoB_exec_def date_pattern_def str_def eol_def char_classes)

lemma sample_regdate: "regexRegDate_exec (str ''2015/03/04'')"
  by (simp add: regexRegDate_exec_def date_pattern_def str_def eol_def char_classes)

lemma sample_identnum: "regexIdentNum_exec (str ''123456789'')"
  by (simp add: regexIdentNum_exec_def digits9_def digits12_def str_def eol_def char_classes)

text \<open>With the flag \<open>m\<close> a value of several lines passes as soon as one of its lines
  does.\<close>

lemma multi_line_values:
  "regexDoB_exec (str ''born on'' @ [0x000A] @ str ''2000-01-02'')"
  "regexPwd_exec (str ''a b'' @ [0x000A] @ str ''Abcdef1!'')"
  "regexIdentNum_exec (str ''123456789'' @ [0x000D] @ str ''x'')"
  by (simp_all add: regexDoB_exec_def regexPwd_exec_def regexIdentNum_exec_def date_pattern_def
      digits9_def digits12_def pwd_body_def str_def eol_def char_classes)

lemma sample_register:
  "customerRegister sample_env empty_store sample_body =
     (Inr (Response 201 (TokenBody (str ''customer.i''))),
      \<lparr>customers = [(new_customer sample_env sample_body (str ''alice'') (str ''alice@example.org''))
                      \<lparr>customer_id := 1\<rparr>],
       identities = [\<lparr>customerId = 1, identityNumber = str ''123456789'',
                      registrationDate = str ''2015/03/04'', frontImage = [1], backImage = [2]\<rparr>],
       staffs = [], roles = []\<rparr>)"
  using sample_password sample_dob sample_regdate sample_identnum
  by (simp add: customerRegister_def sample_body_def ToString_def full_identity_def
      Customer_create_def Identity_create_def sample_env_def empty_store_def new_identity_def
      signToken_def new_customer_def Let_def str_def)


theorem password_rule_witness:
  "fst (customerRegister sample_env empty_store sample_body) \<noteq> Inl WeakPassword \<and>
   single_line (ToString (body_password sample_body)) \<and>
   strong_password (ToString (body_password sample_body)) \<and>
   list_all pwd_char (ToString (body_password sample_body))"
proof -
  have accepted: "fst (customerRegister sample_env empty_store sample_body) \<noteq> Inl WeakPassword"
    by (simp add: sample_register)
  have line: "single_line (ToString (body_password sample_body))"
    by (simp add: sample_body_def ToString_def single_line_def str_def LineTerminator_def)
  from password_rule [where b = sample_body and d = sample_env and st = empty_store] accepted line
  show ?thesis by simp
qed

theorem password_alphabet_counterexample:
  "strong_password (str ''Abcdef1!-'') \<and>
   fst (customerRegister sample_env empty_store
          (sample_body\<lparr>body_password := Some (str ''Abcdef1!-'')\<rparr>)) = Inl WeakPassword"
proof -
  have "strong_password (str ''Abcdef1!-'')"
    by (simp add: strong_password_def str_def char_classes)
  moreover have "\<not> regexPwd_exec (str ''Abcdef1!-'')"
    by (simp add: regexPwd_exec_def pwd_body_def str_def char_classes)
  ultimately show ?thesis
    by (simp add: customerRegister_def ToString_def)
qed


lemma format_single_line:
  "format_dashes s \<or> format_slashes s \<Longrightarrow> single_line s \<and> matches date_pattern s"
  by (auto simp add: format_dashes_def format_slashes_def matches_def date_pattern_def
      single_line_def list_all2_Cons1 char_classes)

text \<open>
  C8, as the code has it. A date of birth without line terminators is rejected with
  \<open>BadDateOfBirth\<close> exactly when the password step passed and the value is not four
  digits, a separator, two digits, a separator and two digits, where each separator on its
  own is \<open>-\<close> or \<open>/\<close>. The registration date is checked against the same
  pattern, and \<open>BadRegistrationDate\<close> is reported exactly when the four earlier steps
  passed and the value does not have that shape.
\<close>

theorem date_rule:
  "(single_line (ToString (body_dateOfBirth b)) \<longrightarrow>
      (fst (customerRegister d st b) = Inl BadDateOfBirth) =
      (regexPwd_exec (ToString (body_password b)) \<and>
       \<not> matches [digit, digit, digit, digit, separator, digit, digit, separator, digit, digit]
            (ToString (body_dateOfBirth b)))) \<and>
   (single_line (ToString (body_registrationDate b)) \<longrightarrow>
      (fst (customerRegister d st b) = Inl BadRegistrationDate) =
      (regexPwd_exec (ToString (body_password b)) \<and>
       regexDoB_exec (ToString (body_dateOfBirth b)) \<and>
       full_identity b \<noteq> None \<and>
       regexIdentNum_exec (ToString (body_identityNumber b)) \<and>
       \<not> matches [digit, digit, digit, digit, separator, digit, digit, separator, digit, digit]
            (ToString (body_registrationDate b))))"
  using regex_date_single_line [of "ToString (body_dateOfBirth b)"]
    regex_date_single_line [of "ToString (body_registrationDate b)"]
  by (simp add: customerRegister_BadDateOfBirth customerRegister_BadRegistrationDate
      regexDoB_exec_def regexRegDate_exec_def date_pattern_def)

lemma sample_checks: "first_failure (registration_checks sample_body) = None"
  using sample_password sample_dob sample_regdate sample_identnum
  by (simp add: first_failure_def registration_checks_def sample_body_def ToString_def falsy_def
      str_def)

theorem date_rule_witness:
  "single_line (ToString (body_dateOfBirth sample_body)) \<and>
   single_line (ToString (body_registrationDate sample_body)) \<and>
   fst (customerRegister sample_env empty_store sample_body) \<noteq> Inl BadDateOfBirth \<and>
   fst (customerRegister sample_env empty_store sample_body) \<noteq> Inl BadRegistrationDate \<and>
   matches [digit, digit, digit, digit, separator, digit, digit, separator, digit, digit]
     (ToString (body_dateOfBirth sample_body)) \<and>
   matches [digit, digit, digit, digit, separator, digit, digit, separator, digit, digit]
     (ToString (body_registrationDate sample_body))"
proof -
  have dob: "single_line (ToString (body_dateOfBirth sample_body))"
    by (simp add: sample_body_def ToString_def single_line_def str_def LineTerminator_def)
  have reg: "single_line (ToString (body_registrationDate sample_body))"
    by (simp add: sample_body_def ToString_def single_line_def str_def LineTerminator_def)
  have pwd: "regexPwd_exec (ToString (body_password sample_body))"
    using sample_password by (simp add: sample_body_def ToString_def)
  have idn: "regexIdentNum_exec (ToString (body_identityNumber sample_body))"
    using sample_identnum by (simp add: sample_body_def ToString_def)
  have dob_ok: "regexDoB_exec (ToString (body_dateOfBirth sample_body))"
    using sample_dob by (simp add: sample_body_def ToString_def)
  have full: "full_identity sample_body \<noteq> None"
    by (simp add: full_identity_def sample_body_def str_def)
  have accepted:
    "fst (customerRegister sample_env empty_store sample_body) \<noteq> Inl BadDateOfBirth"
    "fst (customerRegister sample_env empty_store sample_body) \<noteq> Inl BadRegistrationDate"
    by (simp_all add: sample_register)
  from date_rule [where b = sample_body and d = sample_env and st = empty_store] dob reg pwd idn dob_ok full accepted
  show ?thesis by simp
qed

theorem date_mixed_separators_counterexample:
  "\<not> format_dashes (str ''2020-01/02'') \<and> \<not> format_slashes (str ''2020-01/02'') \<and>
   fst (customerRegister sample_env empty_store
          (sample_body\<lparr>body_dateOfBirth := Some (str ''2020-01/02'')\<rparr>)) =
     Inr (Response 201 (TokenBody (str ''customer.i'')))"
proof -
  have "\<not> format_dashes (str ''2020-01/02'')" "\<not> format_slashes (str ''2020-01/02'')"
    by (simp_all add: format_dashes_def format_slashes_def matches_def str_def char_classes)
  moreover have "regexDoB_exec (str ''2020-01/02'')"
    by (simp add: regexDoB_exec_def date_pattern_def str_def eol_def char_classes)
  ultimately show ?thesis
    using sample_password sample_regdate sample_identnum
    by (simp add: customerRegister_def sample_body_def ToString_def full_identity_def
      Customer_create_def Identity_create_def sample_env_def empty_store_def new_identity_def
      signToken_def new_customer_def Let_def str_def)
qed












lemma sample_single_line: "single_line_fields sample_body"
  by (simp add: single_line_fields_def sample_body_def ToString_def single_line_def str_def
      LineTerminator_def)




lemma first_failure_None:
  "first_failure (registration_checks b) = None \<Longrightarrow>
   regexPwd_exec (ToString (body_password b)) \<and> regexDoB_exec (ToString (body_dateOfBirth b)) \<and>
   full_identity b \<noteq> None \<and> regexIdentNum_exec (ToString (body_identityNumber b)) \<and>
   regexRegDate_exec (ToString (body_registrationDate b))"
  by (auto simp add: first_failure_def registration_checks_def full_identity_None
      split: if_splits)

text \<open>
  C3, as the code has it. For a payload that passes validation, the customer row and the
  identity row are written by two store operations, one after the other. When the first is
  refused nothing is stored. When the first succeeds the customer row is in the store; if the
  second is then refused the request fails and the customer row stays, without an identity
  row; if the second succeeds both rows are stored and the response is 201 with a token for
  the new customer.
\<close>

theorem registration_two_steps:
  assumes "first_failure (registration_checks b) = None"
    and "body_username b = Some username"
    and "body_email b = Some email"
    and "full_identity b = Some full"
  shows
    "(case Customer_create d st (new_customer d b username email) of
        Inl e \<Rightarrow> customerRegister d st b = (Inl (Thrown e), st)
      | Inr (customer, st1) \<Rightarrow>
          customers st1 = customers st @ [customer] \<and> identities st1 = identities st \<and>
          (if identity_refused d st1 (new_identity customer full)
           then customerRegister d st b = (Inl (Thrown StoreError), st1)
           else customerRegister d st b =
                  (Inr (Response 201
                          (TokenBody (jwt_sign d (str ''customer'') (customer_id customer)))),
                   st1\<lparr>identities := identities st @ [new_identity customer full]\<rparr>)))"
  using first_failure_None [OF assms(1)] assms(2-4)
  by (auto simp add: customerRegister_def Customer_create_def Identity_create_def Let_def
      signToken_def split: sum.splits prod.splits)

theorem registration_two_steps_witness:
  "first_failure (registration_checks sample_body) = None \<and>
   body_username sample_body = Some (str ''alice'') \<and>
   body_email sample_body = Some (str ''alice@example.org'') \<and>
   full_identity sample_body = Some (str ''123456789'', str ''2015/03/04'', [1], [2]) \<and>
   fst (customerRegister (sample_env\<lparr>identity_refused := \<lambda>st i. True\<rparr>) empty_store sample_body) =
     Inl (Thrown StoreError) \<and>
   map customer_id
     (customers (snd (customerRegister (sample_env\<lparr>identity_refused := \<lambda>st i. True\<rparr>)
                        empty_store sample_body))) = [1] \<and>
   identities (snd (customerRegister (sample_env\<lparr>identity_refused := \<lambda>st i. True\<rparr>)
                      empty_store sample_body)) = []"
proof -
  have u: "body_username sample_body = Some (str ''alice'')"
    and e: "body_email sample_body = Some (str ''alice@example.org'')"
    by (simp_all add: sample_body_def)
  have f: "full_identity sample_body = Some (str ''123456789'', str ''2015/03/04'', [1], [2])"
    by (simp add: full_identity_def sample_body_def str_def)
  from registration_two_steps
         [OF sample_checks u e f,
          where d = "sample_env\<lparr>identity_refused := \<lambda>st i. True\<rparr>" and st = empty_store]
  have "fst (customerRegister (sample_env\<lparr>identity_refused := \<lambda>st i. True\<rparr>) empty_store sample_body) =
          Inl (Thrown StoreError) \<and>
        map customer_id
          (customers (snd (customerRegister (sample_env\<lparr>identity_refused := \<lambda>st i. True\<rparr>)
                             empty_store sample_body))) = [1] \<and>
        identities (snd (customerRegister (sample_env\<lparr>identity_refused := \<lambda>st i. True\<rparr>)
                           empty_store sample_body)) = []"
    by (simp add: Customer_create_def Let_def sample_env_def empty_store_def)
  with sample_checks u e f show ?thesis by simp
qed

theorem registration_orphan_counterexample:
  "fst (customerRegister (sample_env\<lparr>identity_refused := \<lambda>st i. True\<rparr>) empty_store sample_body) =
     Inl (Thrown StoreError) \<and>
   length (customers (snd (customerRegister (sample_env\<lparr>identity_refused := \<lambda>st i. True\<rparr>)
                             empty_store sample_body))) = 1 \<and>
   length (identities (snd (customerRegister (sample_env\<lparr>identity_refused := \<lambda>st i. True\<rparr>)
                              empty_store sample_body))) = 0"
  using sample_password sample_dob sample_regdate sample_identnum
  by (simp add: customerRegister_def sample_body_def ToString_def full_identity_def
      Customer_create_def Identity_create_def sample_env_def empty_store_def new_identity_def
      signToken_def new_customer_def Let_def str_def)

subsection \<open>The access gate\<close>

lemmas gate_failures =
  NotLoggedIn_def NoLongerExists_def AccountInactive_def AccountBlocked_def Forbidden_def

lemma statusCode_gate_failures:
  "statusCode NotLoggedIn = 401" "statusCode (Thrown (JwtError e)) = 401"
  "statusCode NoLongerExists = 401" "statusCode AccountInactive = 403"
  "statusCode AccountBlocked = 403" "statusCode Forbidden = 403"
  by (simp_all add: gate_failures)

lemma gate_bad_header:
  "falsy authorization \<or> \<not> startsWith (ToString authorization) (str ''Bearer '') \<Longrightarrow>
   gate verify st allowed authorization = Inl NotLoggedIn"
  by (auto simp add: gate_def authorize_def)

lemma gate_bad_token:
  "\<not> falsy authorization \<Longrightarrow> startsWith (ToString authorization) (str ''Bearer '') \<Longrightarrow>
   verify (bearer_token authorization) = Inl e \<Longrightarrow>
   gate verify st allowed authorization = Inl (Thrown (JwtError e))"
  by (simp add: gate_def authorize_def)

lemma gate_no_user:
  "\<not> falsy authorization \<Longrightarrow> startsWith (ToString authorization) (str ''Bearer '') \<Longrightarrow>
   verify (bearer_token authorization) = Inr decoded \<Longrightarrow> currentUser st decoded = None \<Longrightarrow>
   gate verify st allowed authorization = Inl NoLongerExists"
  by (simp add: gate_def authorize_def)

lemma gate_user:
  "\<not> falsy authorization \<Longrightarrow> startsWith (ToString authorization) (str ''Bearer '') \<Longrightarrow>
   verify (bearer_token authorization) = Inr decoded \<Longrightarrow> currentUser st decoded = Some u \<Longrightarrow>
   gate verify st allowed authorization =
     (case user_status u of
        STATUS_deleted \<Rightarrow> Inl NoLongerExists
      | STATUS_inactive \<Rightarrow> Inl AccountInactive
      | STATUS_blocked \<Rightarrow> Inl AccountBlocked
      | STATUS_active \<Rightarrow> restrictTo allowed u)"
  by (simp add: gate_def authorize_def split: status.splits)

text \<open>
  C1. The gate of a protected router evaluates its checks in a fixed order and stops at the
  first that fails. A missing header, or one that does not start with \<open>Bearer \<close>, is
  answered with the 401 error of a missing credential, whatever the token, the store and the
  roles are. With such a header, a token that \<open>jwt.verify\<close> refuses ends the request with
  that error (status 401), whatever the store holds. With a verified token, a principal that
  does not exist and one whose status is deleted get the same 401 error. Then an inactive
  principal gets the 403 inactive error and a blocked one the 403 blocked error, whatever its
  role and the required roles are. Only for an active principal is the role compared with the
  required roles: without a role, or with a role outside them, the answer is 403 Forbidden,
  otherwise the principal is granted.
\<close>

theorem access_gate_order:
  "(falsy authorization \<or> \<not> startsWith (ToString authorization) (str ''Bearer '') \<longrightarrow>
      gate verify st allowed authorization = Inl NotLoggedIn) \<and>
   (\<not> falsy authorization \<and> startsWith (ToString authorization) (str ''Bearer '') \<longrightarrow>
      (\<forall>e. verify (bearer_token authorization) = Inl e \<longrightarrow>
         gate verify st allowed authorization = Inl (Thrown (JwtError e))) \<and>
      (\<forall>decoded. verify (bearer_token authorization) = Inr decoded \<longrightarrow>
         (currentUser st decoded = None \<longrightarrow>
            gate verify st allowed authorization = Inl NoLongerExists) \<and>
         (\<forall>u. currentUser st decoded = Some u \<longrightarrow>
            (user_status u = STATUS_deleted \<longrightarrow>
               gate verify st allowed authorization = Inl NoLongerExists) \<and>
            (user_status u = STATUS_inactive \<longrightarrow>
               gate verify st allowed authorization = Inl AccountInactive) \<and>
            (user_status u = STATUS_blocked \<longrightarrow>
               gate verify st allowed authorization = Inl AccountBlocked) \<and>
            (user_status u = STATUS_active \<longrightarrow>
               (case user_Role u of
                  None \<Rightarrow> gate verify st allowed authorization = Inl Forbidden
                | Some r \<Rightarrow>
                    if roleDescription r \<in> set allowed
                    then gate verify st allowed authorization = Inr u
                    else gate verify st allowed authorization = Inl Forbidden))))) \<and>
   statusCode NotLoggedIn = 401 \<and> (\<forall>e. statusCode (Thrown (JwtError e)) = 401) \<and>
   statusCode NoLongerExists = 401 \<and> statusCode AccountInactive = 403 \<and>
   statusCode AccountBlocked = 403 \<and> statusCode Forbidden = 403"
proof -
  have header: "falsy authorization \<or> \<not> startsWith (ToString authorization) (str ''Bearer '') \<longrightarrow>
      gate verify st allowed authorization = Inl NotLoggedIn"
    using gate_bad_header by blast
  have rest: "\<not> falsy authorization \<and> startsWith (ToString authorization) (str ''Bearer '') \<longrightarrow>
      (\<forall>e. verify (bearer_token authorization) = Inl e \<longrightarrow>
         gate verify st allowed authorization = Inl (Thrown (JwtError e))) \<and>
      (\<forall>decoded. verify (bearer_token authorization) = Inr decoded \<longrightarrow>
         (currentUser st decoded = None \<longrightarrow>
            gate verify st allowed authorization = Inl NoLongerExists) \<and>
         (\<forall>u. currentUser st decoded = Some u \<longrightarrow>
            (user_status u = STATUS_deleted \<longrightarrow>
               gate verify st allowed authorization = Inl NoLongerExists) \<and>
            (user_status u = STATUS_inactive \<longrightarrow>
               gate verify st allowed authorization = Inl AccountInactive) \<and>
            (user_status u = STATUS_blocked \<longrightarrow>
               gate verify st allowed authorization = Inl AccountBlocked) \<and>
            (user_status u = STATUS_active \<longrightarrow>
               (case user_Role u of
                  None \<Rightarrow> gate verify st allowed authorization = Inl Forbidden
                | Some r \<Rightarrow>
                    if roleDescription r \<in> set allowed
                    then gate verify st allowed authorization = Inr u
                    else gate verify st allowed authorization = Inl Forbidden))))"
    by (auto simp add: gate_bad_token gate_no_user gate_user restrictTo_def split: option.splits)
  from header rest statusCode_gate_failures show ?thesis
    by blast
qed

lemma bearer_sample:
  "\<not> falsy (Some (str ''Bearer '' @ t))" "startsWith (ToString (Some (str ''Bearer '' @ t))) (str ''Bearer '')"
  by (simp_all add: falsy_def startsWith_def ToString_def str_def)




lemma sample_verify_tokens:
  "sample_verify (Some (str ''garbage'')) = Inl JsonWebTokenError"
  "sample_verify (Some (str ''expired'')) = Inl TokenExpiredError"
  "sample_verify (Some (str ''customer.i'')) = Inr \<lparr>decoded_type = str ''customer'', decoded_id = 1\<rparr>"
  "sample_verify (Some (str ''customer.ii'')) = Inr \<lparr>decoded_type = str ''customer'', decoded_id = 2\<rparr>"
  "sample_verify (Some (str ''customer.iii'')) = Inr \<lparr>decoded_type = str ''customer'', decoded_id = 3\<rparr>"
  "sample_verify (Some (str ''customer.iiiiiii'')) = Inr \<lparr>decoded_type = str ''customer'', decoded_id = 7\<rparr>"
  "sample_verify (Some (str ''staff.i'')) = Inr \<lparr>decoded_type = str ''staff'', decoded_id = 1\<rparr>"
  "sample_verify (Some (str ''staff.iii'')) = Inr \<lparr>decoded_type = str ''staff'', decoded_id = 3\<rparr>"
  "sample_verify (Some (str ''staff.iiii'')) = Inr \<lparr>decoded_type = str ''staff'', decoded_id = 4\<rparr>"
  by (simp_all add: sample_verify_def str_def Let_def)

lemma sample_users:
  "currentUser sample_store \<lparr>decoded_type = str ''customer'', decoded_id = 7\<rparr> = None"
  "currentUser sample_store \<lparr>decoded_type = str ''customer'', decoded_id = 1\<rparr> =
     Some (CustomerUser (sample_customer 1 ''alice'' STATUS_active))"
  "currentUser sample_store \<lparr>decoded_type = str ''customer'', decoded_id = 2\<rparr> =
     Some (CustomerUser (sample_customer 2 ''carl'' STATUS_inactive))"
  "currentUser sample_store \<lparr>decoded_type = str ''customer'', decoded_id = 3\<rparr> =
     Some (CustomerUser (sample_customer 3 ''dora'' STATUS_blocked))"
  "currentUser sample_store \<lparr>decoded_type = str ''staff'', decoded_id = 1\<rparr> =
     Some (StaffUser (sample_staff 1 ''bob'' 1 STATUS_active)
             (Some \<lparr>role_id = 1, roleDescription = ROLE_staff\<rparr>))"
  "currentUser sample_store \<lparr>decoded_type = str ''staff'', decoded_id = 3\<rparr> =
     Some (StaffUser (sample_staff 3 ''blake'' 2 STATUS_blocked)
             (Some \<lparr>role_id = 2, roleDescription = ROLE_admin\<rparr>))"
  "currentUser sample_store \<lparr>decoded_type = str ''staff'', decoded_id = 4\<rparr> =
     Some (StaffUser (sample_staff 4 ''dan'' 1 STATUS_deleted)
             (Some \<lparr>role_id = 1, roleDescription = ROLE_staff\<rparr>))"
  by (simp_all add: currentUser_def sample_store_def sample_customer_def sample_staff_def
      staff_Role_def str_def)

lemma sample_bearer_tokens:
  "bearer_token (Some (str ''Bearer garbage'')) = Some (str ''garbage'')"
  "bearer_token (Some (str ''Bearer customer.i'')) = Some (str ''customer.i'')"
  "bearer_token (Some (str ''Bearer customer.ii'')) = Some (str ''customer.ii'')"
  "bearer_token (Some (str ''Bearer customer.iii'')) = Some (str ''customer.iii'')"
  "bearer_token (Some (str ''Bearer customer.iiiiiii'')) = Some (str ''customer.iiiiiii'')"
  "bearer_token (Some (str ''Bearer staff.i'')) = Some (str ''staff.i'')"
  "bearer_token (Some (str ''Bearer staff.iii'')) = Some (str ''staff.iii'')"
  "bearer_token (Some (str ''Bearer staff.iiii'')) = Some (str ''staff.iiii'')"
  by (simp_all add: bearer_token_def ToString_def str_def index_def)

lemma sample_headers:
  "\<not> falsy (Some (str ''Bearer garbage''))"
  "startsWith (ToString (Some (str ''Bearer garbage''))) (str ''Bearer '')"
  "\<not> falsy (Some (str ''Bearer customer.i''))"
  "startsWith (ToString (Some (str ''Bearer customer.i''))) (str ''Bearer '')"
  "\<not> falsy (Some (str ''Bearer customer.ii''))"
  "startsWith (ToString (Some (str ''Bearer customer.ii''))) (str ''Bearer '')"
  "\<not> falsy (Some (str ''Bearer customer.iii''))"
  "startsWith (ToString (Some (str ''Bearer customer.iii''))) (str ''Bearer '')"
  "\<not> falsy (Some (str ''Bearer customer.iiiiiii''))"
  "startsWith (ToString (Some (str ''Bearer customer.iiiiiii''))) (str ''Bearer '')"
  "\<not> falsy (Some (str ''Bearer staff.i''))"
  "startsWith (ToString (Some (str ''Bearer staff.i''))) (str ''Bearer '')"
  "\<not> falsy (Some (str ''Bearer staff.iii''))"
  "startsWith (ToString (Some (str ''Bearer staff.iii''))) (str ''Bearer '')"
  "\<not> falsy (Some (str ''Bearer staff.iiii''))"
  "startsWith (ToString (Some (str ''Bearer staff.iiii''))) (str ''Bearer '')"
  "\<not> startsWith (ToString (Some (str ''Basic YWxpY2U6eA==''))) (str ''Bearer '')"
  "falsy None"
  by (simp_all add: falsy_def startsWith_def ToString_def str_def)

theorem access_gate_order_witness:
  "staff_routes_gate sample_verify sample_store None = Inl NotLoggedIn \<and>
   staff_routes_gate sample_verify sample_store (Some (str ''Basic YWxpY2U6eA=='')) = Inl NotLoggedIn \<and>
   staff_routes_gate sample_verify sample_store (Some (str ''Bearer garbage'')) =
     Inl (Thrown (JwtError JsonWebTokenError)) \<and>
   staff_routes_gate sample_verify sample_store (Some (str ''Bearer customer.iiiiiii'')) =
     Inl NoLongerExists \<and>
   staff_routes_gate sample_verify sample_store (Some (str ''Bearer staff.iiii'')) =
     Inl NoLongerExists \<and>
   staff_routes_gate sample_verify sample_store (Some (str ''Bearer customer.ii'')) =
     Inl AccountInactive \<and>
   staff_routes_gate sample_verify sample_store (Some (str ''Bearer staff.iii'')) =
     Inl AccountBlocked \<and>
   staff_routes_gate sample_verify sample_store (Some (str ''Bearer customer.i'')) = Inl Forbidden \<and>
   gate sample_verify sample_store [ROLE_admin] (Some (str ''Bearer staff.i'')) = Inl Forbidden \<and>
   staff_routes_gate sample_verify sample_store (Some (str ''Bearer staff.i'')) =
     Inr (StaffUser (sample_staff 1 ''bob'' 1 STATUS_active)
            (Some \<lparr>role_id = 1, roleDescription = ROLE_staff\<rparr>))"
proof -
  note facts = sample_headers sample_bearer_tokens sample_verify_tokens sample_users
  have 1: "gate sample_verify sample_store [ROLE_staff, ROLE_admin] None = Inl NotLoggedIn"
    using access_gate_order
      [where authorization = None and verify = sample_verify and st = sample_store
         and allowed = "[ROLE_staff, ROLE_admin]"] facts
    by simp
  have 2: "gate sample_verify sample_store [ROLE_staff, ROLE_admin]
             (Some (str ''Basic YWxpY2U6eA=='')) = Inl NotLoggedIn"
    using access_gate_order
      [where authorization = "Some (str ''Basic YWxpY2U6eA=='')" and verify = sample_verify
         and st = sample_store and allowed = "[ROLE_staff, ROLE_admin]"] facts
    by simp
  have 3: "gate sample_verify sample_store [ROLE_staff, ROLE_admin]
             (Some (str ''Bearer garbage'')) = Inl (Thrown (JwtError JsonWebTokenError))"
    using access_gate_order
      [where authorization = "Some (str ''Bearer garbage'')" and verify = sample_verify
         and st = sample_store and allowed = "[ROLE_staff, ROLE_admin]"] facts
    by simp
  have 4: "gate sample_verify sample_store [ROLE_staff, ROLE_admin]
             (Some (str ''Bearer customer.iiiiiii'')) = Inl NoLongerExists"
    using access_gate_order
      [where authorization = "Some (str ''Bearer customer.iiiiiii'')" and verify = sample_verify
         and st = sample_store and allowed = "[ROLE_staff, ROLE_admin]"] facts
    by simp
  have 5: "gate sample_verify sample_store [ROLE_staff, ROLE_admin]
             (Some (str ''Bearer staff.iiii'')) = Inl NoLongerExists"
    using access_gate_order
      [where authorization = "Some (str ''Bearer staff.iiii'')" and verify = sample_verify
         and st = sample_store and allowed = "[ROLE_staff, ROLE_admin]"] facts
    by (simp add: sample_staff_def)
  have 6: "gate sample_verify sample_store [ROLE_staff, ROLE_admin]
             (Some (str ''Bearer customer.ii'')) = Inl AccountInactive"
    using access_gate_order
      [where authorization = "Some (str ''Bearer customer.ii'')" and verify = sample_verify
         and st = sample_store and allowed = "[ROLE_staff, ROLE_admin]"] facts
    by (simp add: sample_customer_def)
  have 7: "gate sample_verify sample_store [ROLE_staff, ROLE_admin]
             (Some (str ''Bearer staff.iii'')) = Inl AccountBlocked"
    using access_gate_order
      [where authorization = "Some (str ''Bearer staff.iii'')" and verify = sample_verify
         and st = sample_store and allowed = "[ROLE_staff, ROLE_admin]"] facts
    by (simp add: sample_staff_def)
  have 8: "gate sample_verify sample_store [ROLE_staff, ROLE_admin]
             (Some (str ''Bearer customer.i'')) = Inl Forbidden"
    using access_gate_order
      [where authorization = "Some (str ''Bearer customer.i'')" and verify = sample_verify
         and st = sample_store and allowed = "[ROLE_staff, ROLE_admin]"] facts
    by (simp add: sample_customer_def)
  have 9: "gate sample_verify sample_store [ROLE_admin] (Some (str ''Bearer staff.i'')) =
             Inl Forbidden"
    using access_gate_order
      [where authorization = "Some (str ''Bearer staff.i'')" and verify = sample_verify
         and st = sample_store and allowed = "[ROLE_admin]"] facts
    by (simp add: sample_staff_def)
  have 10: "gate sample_verify sample_store [ROLE_staff, ROLE_admin]
              (Some (str ''Bearer staff.i'')) =
              Inr (StaffUser (sample_staff 1 ''bob'' 1 STATUS_active)
                     (Some \<lparr>role_id = 1, roleDescription = ROLE_staff\<rparr>))"
    using access_gate_order
      [where authorization = "Some (str ''Bearer staff.i'')" and verify = sample_verify
         and st = sample_store and allowed = "[ROLE_staff, ROLE_admin]"] facts
    by (simp add: sample_staff_def)
  from 1 2 3 4 5 6 7 8 9 10 show ?thesis
    by (simp add: staff_routes_gate_def)
qed

subsection \<open>Login\<close>

lemma customerLogin_no_match:
  "\<not> falsy username \<Longrightarrow> \<not> falsy password \<Longrightarrow>
   Customer_findOne_login st (ToString username) = None \<Longrightarrow>
   customerLogin verifyHashed sign st username password = Inl IncorrectLogin"
  by (simp add: customerLogin_def)

lemma customerLogin_wrong_password:
  "\<not> falsy username \<Longrightarrow> \<not> falsy password \<Longrightarrow>
   Customer_findOne_login st (ToString username) = Some c \<Longrightarrow>
   \<not> verifyHashed (ToString password) (customer_password c) \<Longrightarrow>
   customerLogin verifyHashed sign st username password = Inl IncorrectLogin"
  by (simp add: customerLogin_def)

lemma staffLogin_no_match:
  "\<not> falsy username \<Longrightarrow> \<not> falsy password \<Longrightarrow>
   Staff_findOne_login st (ToString username) = None \<Longrightarrow>
   staffLogin verifyHashed sign st username password = Inl IncorrectLogin"
  by (simp add: staffLogin_def)

lemma staffLogin_wrong_password:
  "\<not> falsy username \<Longrightarrow> \<not> falsy password \<Longrightarrow>
   Staff_findOne_login st (ToString username) = Some s \<Longrightarrow>
   \<not> verifyHashed (ToString password) (staff_password s) \<Longrightarrow>
   staffLogin verifyHashed sign st username password = Inl IncorrectLogin"
  by (simp add: staffLogin_def)

text \<open>
  C7. Take two login attempts that both supply a username and a password: in the first no
  principal matches the username, in the second a principal matches and the password does not
  verify against its stored hash. Both attempts get the same answer, for customers and for
  staff: the error with status 401 and the message
  \<open>Incorrect username/email or password\<close>.
\<close>

theorem login_failures_indistinguishable:
  assumes "\<not> falsy username1" and "\<not> falsy password1"
    and "\<not> falsy username2" and "\<not> falsy password2"
  shows
    "(Customer_findOne_login st (ToString username1) = None \<longrightarrow>
        (\<forall>c. Customer_findOne_login st (ToString username2) = Some c \<longrightarrow>
             \<not> verifyHashed (ToString password2) (customer_password c) \<longrightarrow>
             customerLogin verifyHashed sign st username1 password1 =
               customerLogin verifyHashed sign st username2 password2 \<and>
             customerLogin verifyHashed sign st username1 password1 =
               Inl (AppError ''Incorrect username/email or password'' 401))) \<and>
     (Staff_findOne_login st (ToString username1) = None \<longrightarrow>
        (\<forall>s. Staff_findOne_login st (ToString username2) = Some s \<longrightarrow>
             \<not> verifyHashed (ToString password2) (staff_password s) \<longrightarrow>
             staffLogin verifyHashed sign st username1 password1 =
               staffLogin verifyHashed sign st username2 password2 \<and>
             staffLogin verifyHashed sign st username1 password1 =
               Inl (AppError ''Incorrect username/email or password'' 401))) \<and>
     statusCode (AppError ''Incorrect username/email or password'' 401) = 401"
  using assms
  by (simp add: customerLogin_no_match customerLogin_wrong_password staffLogin_no_match
      staffLogin_wrong_password IncorrectLogin_def)

lemma sample_logins:
  "Customer_findOne_login sample_store (str ''nobody'') = None"
  "Customer_findOne_login sample_store (str ''alice'') = Some (sample_customer 1 ''alice'' STATUS_active)"
  "Customer_findOne_login sample_store (str ''carl'') = Some (sample_customer 2 ''carl'' STATUS_inactive)"
  "Customer_findOne_login sample_store (str ''dora@example.org'') =
     Some (sample_customer 3 ''dora'' STATUS_blocked)"
  "Customer_findOne_login sample_store (str ''eve'') = None"
  "Staff_findOne_login sample_store (str ''nobody'') = None"
  "Staff_findOne_login sample_store (str ''bob'') = Some (sample_staff 1 ''bob'' 1 STATUS_active)"
  "Staff_findOne_login sample_store (str ''blake'') = Some (sample_staff 3 ''blake'' 2 STATUS_blocked)"
  by (simp_all add: Customer_findOne_login_def Staff_findOne_login_def sample_store_def
      sample_customer_def sample_staff_def str_def)

lemma sample_passwords:
  "\<not> sample_verifyHashed (str ''Wr0ng!pass'') (customer_password (sample_customer 1 ''alice'' STATUS_active))"
  "\<not> sample_verifyHashed (str ''Wr0ng!pass'') (staff_password (sample_staff 1 ''bob'' 1 STATUS_active))"
  "sample_verifyHashed (str ''Abcdef1!'') (customer_password (sample_customer i n t))"
  "sample_verifyHashed (str ''Secret1!'') (staff_password (sample_staff i n r t))"
  by (simp_all add: sample_verifyHashed_def sample_customer_def sample_staff_def str_def)

lemma sample_credentials:
  "\<not> falsy (Some (str ''nobody''))" "\<not> falsy (Some (str ''alice''))" "\<not> falsy (Some (str ''bob''))"
  "\<not> falsy (Some (str ''carl''))" "\<not> falsy (Some (str ''dora@example.org''))"
  "\<not> falsy (Some (str ''blake''))"
  "\<not> falsy (Some (str ''Wr0ng!pass''))" "\<not> falsy (Some (str ''Abcdef1!''))"
  "\<not> falsy (Some (str ''Secret1!''))"
  by (simp_all add: falsy_def str_def)

theorem login_failures_indistinguishable_witness:
  "customerLogin sample_verifyHashed (jwt_sign sample_env) sample_store
     (Some (str ''nobody'')) (Some (str ''Wr0ng!pass'')) =
   customerLogin sample_verifyHashed (jwt_sign sample_env) sample_store
     (Some (str ''alice'')) (Some (str ''Wr0ng!pass'')) \<and>
   customerLogin sample_verifyHashed (jwt_sign sample_env) sample_store
     (Some (str ''nobody'')) (Some (str ''Wr0ng!pass'')) =
     Inl (AppError ''Incorrect username/email or password'' 401) \<and>
   staffLogin sample_verifyHashed (jwt_sign sample_env) sample_store
     (Some (str ''nobody'')) (Some (str ''Wr0ng!pass'')) =
   staffLogin sample_verifyHashed (jwt_sign sample_env) sample_store
     (Some (str ''bob'')) (Some (str ''Wr0ng!pass'')) \<and>
   staffLogin sample_verifyHashed (jwt_sign sample_env) sample_store
     (Some (str ''nobody'')) (Some (str ''Wr0ng!pass'')) =
     Inl (AppError ''Incorrect username/email or password'' 401)"
proof -
  note facts = sample_logins sample_passwords sample_credentials
  have "customerLogin sample_verifyHashed (jwt_sign sample_env) sample_store
          (Some (str ''nobody'')) (Some (str ''Wr0ng!pass'')) =
        customerLogin sample_verifyHashed (jwt_sign sample_env) sample_store
          (Some (str ''alice'')) (Some (str ''Wr0ng!pass'')) \<and>
        customerLogin sample_verifyHashed (jwt_sign sample_env) sample_store
          (Some (str ''nobody'')) (Some (str ''Wr0ng!pass'')) =
          Inl (AppError ''Incorrect username/email or password'' 401)"
    using login_failures_indistinguishable
      [where ?username1.0 = "Some (str ''nobody'')" and ?password1.0 = "Some (str ''Wr0ng!pass'')"
         and ?username2.0 = "Some (str ''alice'')" and ?password2.0 = "Some (str ''Wr0ng!pass'')"
         and st = sample_store and verifyHashed = sample_verifyHashed
         and sign = "jwt_sign sample_env"] facts
    by (auto simp add: ToString_def)
  moreover
  have "staffLogin sample_verifyHashed (jwt_sign sample_env) sample_store
          (Some (str ''nobody'')) (Some (str ''Wr0ng!pass'')) =
        staffLogin sample_verifyHashed (jwt_sign sample_env) sample_store
          (Some (str ''bob'')) (Some (str ''Wr0ng!pass'')) \<and>
        staffLogin sample_verifyHashed (jwt_sign sample_env) sample_store
          (Some (str ''nobody'')) (Some (str ''Wr0ng!pass'')) =
          Inl (AppError ''Incorrect username/email or password'' 401)"
    using login_failures_indistinguishable
      [where ?username1.0 = "Some (str ''nobody'')" and ?password1.0 = "Some (str ''Wr0ng!pass'')"
         and ?username2.0 = "Some (str ''bob'')" and ?password2.0 = "Some (str ''Wr0ng!pass'')"
         and st = sample_store and verifyHashed = sample_verifyHashed
         and sign = "jwt_sign sample_env"] facts
    by (auto simp add: ToString_def)
  ultimately show ?thesis by blast
qed






lemma Customer_findOne_login_not_deleted:
  "Customer_findOne_login st u = Some c \<Longrightarrow> customer_status c \<noteq> STATUS_deleted"
  by (auto simp add: Customer_findOne_login_def find_Some_iff)

lemma Staff_findOne_login_not_deleted:
  "Staff_findOne_login st u = Some s \<Longrightarrow> staff_status s \<noteq> STATUS_deleted"
  by (auto simp add: Staff_findOne_login_def find_Some_iff)



















subsection \<open>Staff management\<close>

lemma excludeAdmin_admin:
  "staff_Role st s = Some r \<Longrightarrow> roleDescription r = ROLE_admin \<Longrightarrow> excludeAdmin st s = None"
  by (simp add: excludeAdmin_def)

lemma excludeAdmin_view_id: "excludeAdmin st x = Some v \<Longrightarrow> view_id v = staff_id x"
  by (auto simp add: excludeAdmin_def split: option.splits if_splits)

lemma select_staffs_row:
  "v \<in> set (select_staffs st cond) \<Longrightarrow>
   \<exists>x \<in> set (staffs st). cond x \<and> excludeAdmin st x = Some v"
  by (auto simp add: select_staffs_def List.map_filter_def)

lemma same_id_same_row:
  "distinct (map staff_id xs) \<Longrightarrow> x \<in> set xs \<Longrightarrow> y \<in> set xs \<Longrightarrow> staff_id x = staff_id y \<Longrightarrow>
   x = y"
  by (auto simp add: distinct_map inj_on_def)

lemma admin_not_selected:
  assumes "s \<in> set (staffs st)" and "excludeAdmin st s = None"
    and "distinct (map staff_id (staffs st))"
  shows "staff_id s \<notin> view_id ` set (select_staffs st cond)"
proof
  assume "staff_id s \<in> view_id ` set (select_staffs st cond)"
  then obtain v where v: "v \<in> set (select_staffs st cond)" and id: "view_id v = staff_id s"
    by auto
  from select_staffs_row [OF v] obtain x
    where x: "x \<in> set (staffs st)" and view: "excludeAdmin st x = Some v"
    by blast
  from view id have "staff_id x = staff_id s"
    by (simp add: excludeAdmin_view_id)
  with assms(1,3) x have "x = s"
    by (rule_tac same_id_same_row)
  with view assms(2) show False by simp
qed

lemma set_order_rows: "set (order_rows sortBy sortType rows) = set rows"
  by (simp add: order_rows_def Let_def)

lemma findOne_staff_admin:
  assumes "s \<in> set (staffs st)" and "excludeAdmin st s = None"
    and "distinct (map staff_id (staffs st))"
  shows "findOne_staff st (\<lambda>x. staff_id x = staff_id s \<and> extra x) = None"
proof (cases "select_staffs st (\<lambda>x. staff_id x = staff_id s \<and> extra x)")
  case Nil
  then show ?thesis by (simp add: findOne_staff_def)
next
  case (Cons v vs)
  then have v: "v \<in> set (select_staffs st (\<lambda>x. staff_id x = staff_id s \<and> extra x))"
    by simp
  from select_staffs_row [OF v] obtain x
    where "x \<in> set (staffs st)" "staff_id x = staff_id s" "excludeAdmin st x = Some v"
    by blast
  with assms have False
    using same_id_same_row [of "staffs st" x s] by auto
  then show ?thesis ..
qed

lemma map_filter_removeAll:
  "f s = None \<Longrightarrow> List.map_filter f (filter P (removeAll s xs)) = List.map_filter f (filter P xs)"
  by (induction xs) (auto split: option.splits)

lemma staff_Role_staffs_update: "staff_Role (st\<lparr>staffs := xs\<rparr>) s = staff_Role st s"
  by (cases "roleId s") (simp_all add: staff_Role_def)

lemma excludeAdmin_staffs_update: "excludeAdmin (st\<lparr>staffs := xs\<rparr>) = excludeAdmin st"
  by (rule ext) (simp add: excludeAdmin_def staff_Role_staffs_update)

lemma select_staffs_removeAll:
  "excludeAdmin st s = None \<Longrightarrow>
   select_staffs (st\<lparr>staffs := removeAll s (staffs st)\<rparr>) cond = select_staffs st cond"
  by (simp add: select_staffs_def excludeAdmin_staffs_update map_filter_removeAll)

lemma take_drop_subset: "set (take k (drop j xs)) \<subseteq> set xs"
  by (meson set_drop_subset set_take_subset subset_trans)

lemma getAllStaffs_rows:
  "getAllStaffs like st q = Inr (Response 200 (StaffListBody n rows)) \<Longrightarrow>
   \<exists>cond. set rows \<subseteq> set (select_staffs st cond)"
proof -
  assume a: "getAllStaffs like st q = Inr (Response 200 (StaffListBody n rows))"
  then obtain cond k j sortBy sortType
    where "rows = take k (drop j (order_rows sortBy sortType (select_staffs st cond)))"
    unfolding getAllStaffs_def Let_def by blast
  then have "set rows \<subseteq> set (select_staffs st cond)"
    using take_drop_subset [of k j "order_rows sortBy sortType (select_staffs st cond)"]
    by (simp add: set_order_rows)
  then show ?thesis by blast
qed


lemma findOne_staff_member:
  "findOne_staff st cond = Some v \<Longrightarrow> v \<in> set (select_staffs st cond)"
  by (auto simp add: findOne_staff_def split: list.splits)

lemma findOne_staff_admin_id:
  assumes "s \<in> set (staffs st)" and "excludeAdmin st s = None"
    and "distinct (map staff_id (staffs st))"
  shows "findOne_staff st (\<lambda>x. staff_id x = staff_id s) = None"
  using findOne_staff_admin [OF assms, of "\<lambda>x. True"] by simp

lemma save_status_keeps:
  "s \<in> set (staffs st) \<Longrightarrow> staff_id s \<noteq> ident \<Longrightarrow>
   s \<in> set (staffs (save_status now st ident v))"
  by (force simp add: save_status_def)

lemma updateStaffStatus_keeps_admin:
  assumes "s \<in> set (staffs st)" and "excludeAdmin st s = None"
    and "distinct (map staff_id (staffs st))"
  shows "s \<in> set (staffs (snd (updateStaffStatus now st ident status)))"
proof (cases "findOne_staff st (\<lambda>x. staff_id x = ident)")
  case None
  with assms(1) show ?thesis
    by (simp add: updateStaffStatus_def Let_def)
next
  case (Some v)
  from findOne_staff_member [OF Some] admin_not_selected [OF assms]
  have "staff_id s \<noteq> view_id v" by blast
  with assms(1) Some show ?thesis
    by (auto simp add: updateStaffStatus_def Let_def save_status_keeps split: property.splits)
qed


text \<open>
  C9. Let a staff row have the role admin, in a store whose staff ids are distinct. The
  staff-management operations behave as if the row did not exist: \<open>getAllStaffs\<close>
  answers as it does on the store without the row, and no listed item has the id of the row;
  \<open>getStaff\<close> answers not-found (404) for its id; \<open>updateStaffStatus\<close> for its id
  leaves the store as it is and answers not-found, unless the status name is no property of
  the status table, which is answered with the validation error first; and no call of
  \<open>updateStaffStatus\<close>, for whatever id, changes the row.
\<close>

theorem admin_hidden_from_staff_management:
  assumes "s \<in> set (staffs st)"
    and "staff_Role st s = Some r" and "roleDescription r = ROLE_admin"
    and "distinct (map staff_id (staffs st))"
  shows
    "getAllStaffs like st q = getAllStaffs like (st\<lparr>staffs := removeAll s (staffs st)\<rparr>) q \<and>
     (\<forall>n rows. getAllStaffs like st q = Inr (Response 200 (StaffListBody n rows)) \<longrightarrow>
        staff_id s \<notin> view_id ` set rows) \<and>
     getStaff st (staff_id s) = Inl NotFound \<and>
     updateStaffStatus now st (staff_id s) status =
       (Inl (if STATUS_get (ToString status) = Undefined then InvalidStatus else NotFound), st) \<and>
     (\<forall>ident. s \<in> set (staffs (snd (updateStaffStatus now st ident status)))) \<and>
     statusCode NotFound = 404"
proof -
  from assms(2,3) have hidden: "excludeAdmin st s = None"
    by (rule excludeAdmin_admin)
  have listing:
    "getAllStaffs like st q = getAllStaffs like (st\<lparr>staffs := removeAll s (staffs st)\<rparr>) q"
    unfolding getAllStaffs_def select_staffs_removeAll [OF hidden] ..
  have rows: "\<forall>n rows. getAllStaffs like st q = Inr (Response 200 (StaffListBody n rows)) \<longrightarrow>
      staff_id s \<notin> view_id ` set rows"
  proof (intro allI impI)
    fix n rows
    assume "getAllStaffs like st q = Inr (Response 200 (StaffListBody n rows))"
    from getAllStaffs_rows [OF this] obtain cond
      where "set rows \<subseteq> set (select_staffs st cond)" by blast
    with admin_not_selected [OF assms(1) hidden assms(4), of cond]
    show "staff_id s \<notin> view_id ` set rows" by blast
  qed
  have get: "getStaff st (staff_id s) = Inl NotFound"
    using findOne_staff_admin [OF assms(1) hidden assms(4)]
    by (simp add: getStaff_def findStaff_def)
  have update: "updateStaffStatus now st (staff_id s) status =
      (Inl (if STATUS_get (ToString status) = Undefined then InvalidStatus else NotFound), st)"
    using findOne_staff_admin_id [OF assms(1) hidden assms(4)]
    by (simp add: updateStaffStatus_def Let_def)
  have keeps: "\<forall>ident. s \<in> set (staffs (snd (updateStaffStatus now st ident status)))"
    using updateStaffStatus_keeps_admin [OF assms(1) hidden assms(4)] by blast
  have "statusCode NotFound = 404"
    by (simp add: NotFound_def)
  with listing rows get update keeps show ?thesis
    by (intro conjI)
qed

lemma updateStaffStatus_unknown:
  "STATUS_get (ToString status) = Undefined \<Longrightarrow>
   updateStaffStatus now st idStaff status = (Inl InvalidStatus, st)"
  by (simp add: updateStaffStatus_def)


lemma save_status_sets:
  assumes "x \<in> set (staffs (save_status now st ident v))" and "staff_id x = ident"
  shows "staff_status x = v"
proof -
  from assms(1)
  have "x \<in> (\<lambda>s. if staff_id s = ident \<and> staff_status s \<noteq> v
                    then s\<lparr>staff_status := v, staff_updatedAt := now\<rparr> else s) ` set (staffs st)"
    by (simp add: save_status_def)
  then obtain s
    where x: "x = (if staff_id s = ident \<and> staff_status s \<noteq> v
                   then s\<lparr>staff_status := v, staff_updatedAt := now\<rparr> else s)"
    by (rule imageE)
  show ?thesis
  proof (cases "staff_id s = ident \<and> staff_status s \<noteq> v")
    case True
    with x show ?thesis by simp
  next
    case False
    with x have "x = s" by simp
    with False assms(2) show ?thesis by simp
  qed
qed

lemma updateStaffStatus_member:
  assumes "STATUS_get (ToString status) = Member v"
    and "findOne_staff st (\<lambda>s. staff_id s = idStaff) = Some staff"
  shows "updateStaffStatus now st idStaff status =
           (Inr (Response 200
                   (StaffBody
                      (if view_status staff = v then staff
                       else staff\<lparr>view_status := v, view_updatedAt := now\<rparr>))),
            save_status now st idStaff v)"
proof -
  from select_staffs_row [OF findOne_staff_member [OF assms(2)]] obtain x
    where "staff_id x = idStaff" and "excludeAdmin st x = Some staff"
    by blast
  then have "view_id staff = idStaff"
    by (simp add: excludeAdmin_view_id)
  with assms show ?thesis
    by (simp add: updateStaffStatus_def)
qed

lemma updateStaffStatus_stores:
  assumes "STATUS_get (ToString status) = Member v"
    and "findOne_staff st (\<lambda>s. staff_id s = idStaff) = Some staff"
    and "x \<in> set (staffs (snd (updateStaffStatus now st idStaff status)))"
    and "staff_id x = idStaff"
  shows "staff_status x = v"
  using assms(3,4) save_status_sets [of x now st idStaff v]
  by (simp add: updateStaffStatus_member [OF assms(1,2)])

lemma STATUS_get_names:
  "STATUS_get (str ''active'') = Member STATUS_active"
  "STATUS_get (str ''inactive'') = Member STATUS_inactive"
  "STATUS_get (str ''blocked'') = Member STATUS_blocked"
  "STATUS_get (str ''deleted'') = Member STATUS_deleted"
  "STATUS_get (str ''constructor'') = Inherited"
  "STATUS_get (str ''suspended'') = Undefined"
  "STATUS_get (str ''undefined'') = Undefined"
  by (simp_all add: STATUS_get_def Object_prototype_keys_def str_def)



lemma sample_admin:
  "sample_staff 2 ''root'' 2 STATUS_active \<in> set (staffs sample_store)"
  "staff_Role sample_store (sample_staff 2 ''root'' 2 STATUS_active) =
     Some \<lparr>role_id = 2, roleDescription = ROLE_admin\<rparr>"
  "roleDescription \<lparr>role_id = 2, roleDescription = ROLE_admin\<rparr> = ROLE_admin"
  "distinct (map staff_id (staffs sample_store))"
  by (simp_all add: sample_store_def sample_staff_def staff_Role_def)

lemma sample_listing:
  "getAllStaffs (\<lambda>pattern v. True) sample_store
     \<lparr>query_sortBy = None, query_sortType = Some (str ''desc''), query_page = Some 0,
      query_limit = None, query_username = Some (str ''b''), query_name = None\<rparr> =
   Inr (Response 200
          (StaffListBody 1
             [\<lparr>view_id = 1, view_username = str ''bob'', view_name = str ''bob'',
               view_status = STATUS_active, view_updatedAt = 1,
               view_Role = \<lparr>role_id = 1, roleDescription = ROLE_staff\<rparr>\<rparr>]))"
  by (simp add: getAllStaffs_def Let_def falsy_def ToString_def select_staffs_def
      sample_store_def sample_staff_def excludeAdmin_def staff_Role_def List.map_filter_simps
      order_rows_def str_def)

theorem admin_hidden_from_staff_management_witness:
  "sample_staff 2 ''root'' 2 STATUS_active \<in> set (staffs sample_store) \<and>
   staff_Role sample_store (sample_staff 2 ''root'' 2 STATUS_active) =
     Some \<lparr>role_id = 2, roleDescription = ROLE_admin\<rparr> \<and>
   distinct (map staff_id (staffs sample_store)) \<and>
   getStaff sample_store 2 = Inl NotFound \<and>
   updateStaffStatus 7 sample_store 2 (Some (str ''blocked'')) = (Inl NotFound, sample_store) \<and>
   updateStaffStatus 7 sample_store 2 (Some (str ''suspended'')) = (Inl InvalidStatus, sample_store) \<and>
   sample_staff 2 ''root'' 2 STATUS_active \<in>
     set (staffs (snd (updateStaffStatus 7 sample_store 1 (Some (str ''deleted''))))) \<and>
   staff_id (sample_staff 2 ''root'' 2 STATUS_active) \<notin>
     view_id `
       set [\<lparr>view_id = 1, view_username = str ''bob'', view_name = str ''bob'',
             view_status = STATUS_active, view_updatedAt = 1,
             view_Role = \<lparr>role_id = 1, roleDescription = ROLE_staff\<rparr>\<rparr>]"
proof -
  have id: "staff_id (sample_staff 2 ''root'' 2 STATUS_active) = 2"
    by (simp add: sample_staff_def)
  from admin_hidden_from_staff_management
         [OF sample_admin, where status = "Some (str ''blocked'')" and now = 7]
  have blocked:
    "getStaff sample_store 2 = Inl NotFound \<and>
     updateStaffStatus 7 sample_store 2 (Some (str ''blocked'')) = (Inl NotFound, sample_store)"
    by (simp add: id ToString_def STATUS_get_names)
  from admin_hidden_from_staff_management
         [OF sample_admin, where status = "Some (str ''suspended'')" and now = 7]
  have suspended:
    "updateStaffStatus 7 sample_store 2 (Some (str ''suspended'')) = (Inl InvalidStatus, sample_store)"
    by (simp add: id ToString_def STATUS_get_names)
  from admin_hidden_from_staff_management
         [OF sample_admin, where status = "Some (str ''deleted'')" and now = 7]
  have deleted:
    "sample_staff 2 ''root'' 2 STATUS_active \<in>
       set (staffs (snd (updateStaffStatus 7 sample_store 1 (Some (str ''deleted'')))))"
    by blast
  from admin_hidden_from_staff_management
         [OF sample_admin, where like = "\<lambda>pattern v. True"
            and q = "\<lparr>query_sortBy = None, query_sortType = Some (str ''desc''),
                      query_page = Some 0, query_limit = None,
                      query_username = Some (str ''b''), query_name = None\<rparr>"]
       sample_listing
  have listed:
    "staff_id (sample_staff 2 ''root'' 2 STATUS_active) \<notin>
       view_id `
         set [\<lparr>view_id = 1, view_username = str ''bob'', view_name = str ''bob'',
               view_status = STATUS_active, view_updatedAt = 1,
               view_Role = \<lparr>role_id = 1, roleDescription = ROLE_staff\<rparr>\<rparr>]"
    by blast
  from sample_admin blocked suspended deleted listed show ?thesis
    by (intro conjI) simp_all
qed

lemma sample_findOne_staff:
  "findOne_staff sample_store (\<lambda>s. staff_id s = 99) = None"
  "findOne_staff sample_store (\<lambda>s. staff_id s = 1) =
     Some \<lparr>view_id = 1, view_username = str ''bob'', view_name = str ''bob'',
           view_status = STATUS_active, view_updatedAt = 1,
           view_Role = \<lparr>role_id = 1, roleDescription = ROLE_staff\<rparr>\<rparr>"
  by (simp_all add: findOne_staff_def select_staffs_def sample_store_def sample_staff_def
      excludeAdmin_def staff_Role_def List.map_filter_simps)

text \<open>
  C6, at a key that the status table inherits. The name \<open>constructor\<close> is none of the
  four statuses, but \<open>STATUS[status]\<close> finds the inherited member, which is truthy, so
  the validation does not reject the request: for an id that matches no staff row the answer
  is not-found (404) instead of the validation error (400), and for an existing row the
  handler assigns the inherited member and calls \<open>save\<close>. A name that is no property
  of the table at all, such as \<open>suspended\<close>, is rejected with 400.
\<close>

theorem status_validation_inherited_key:
  "updateStaffStatus 7 sample_store 99 (Some (str ''constructor'')) = (Inl NotFound, sample_store) \<and>
   updateStaffStatus 7 sample_store 1 (Some (str ''constructor'')) =
     (Inl (Thrown StoreError), sample_store) \<and>
   updateStaffStatus 7 sample_store 99 (Some (str ''suspended'')) = (Inl InvalidStatus, sample_store) \<and>
   statusCode NotFound = 404 \<and> statusCode InvalidStatus = 400"
  using sample_findOne_staff
  by (simp add: updateStaffStatus_def ToString_def STATUS_get_names NotFound_def
      InvalidStatus_def)

end
